theory Spec2Isabelle
  imports Main
begin

section \<open>JavaScript values as the handler sees them\<close>

text \<open>
  The handler of \<^verbatim>\<open>api/generate.js\<close> reads dynamically typed data in two places: the
  request body and the provider's response envelope. Both come out of a JSON parser, so a
  value is one of the JSON shapes, or \<open>undefined\<close> (what reading a missing property gives).

  A number is kept as the text that JavaScript's number-to-string conversion prints for it
  (\<open>''429''\<close>, \<open>''0.5''\<close>). The handler only ever tests a number for truthiness or
  interpolates it into a template literal, and both are functions of that text.

  Strings are byte strings: text outside ASCII is written as its UTF-8 bytes.
  An object is the list of its own properties, each key occurring once.
\<close>

datatype jsval =
    Undefined
  | Null
  | Bool bool
  | Num string
  | Str string
  | Arr "jsval list"
  | Obj "(string \<times> jsval) list"

text \<open>\<open>!v\<close> is \<open>\<not> truthy v\<close>: the falsy values are \<open>undefined\<close>, \<open>null\<close>, \<open>false\<close>,
  zero, \<open>NaN\<close> and the empty string.\<close>

fun truthy :: "jsval \<Rightarrow> bool" where
  "truthy Undefined = False"
| "truthy Null = False"
| "truthy (Bool b) = b"
| "truthy (Num n) = (n \<noteq> ''0'' \<and> n \<noteq> ''NaN'')"
| "truthy (Str s) = (s \<noteq> [])"
| "truthy (Arr xs) = True"
| "truthy (Obj kvs) = True"

fun nullish :: "jsval \<Rightarrow> bool" where
  "nullish Undefined = True"
| "nullish Null = True"
| "nullish v = False"

text \<open>
  Reading property \<open>k\<close> of a value that is neither \<open>undefined\<close> nor \<open>null\<close>. The handler
  reads the names \<open>prompt\<close>, \<open>hardwareData\<close>, \<open>error\<close>, \<open>message\<close>, \<open>candidates\<close>,
  \<open>content\<close>, \<open>parts\<close>, \<open>text\<close>, \<open>finishReason\<close>, \<open>safetyRatings\<close> and the index \<open>0\<close>.
  None of the names is defined on a built-in prototype, so a primitive or an array has
  them \<open>undefined\<close>; index \<open>0\<close> of an array is its first element and index \<open>0\<close> of a string
  its first character.
\<close>

fun getprop :: "jsval \<Rightarrow> string \<Rightarrow> jsval" where
  "getprop (Obj kvs) k = (case map_of kvs k of None \<Rightarrow> Undefined | Some v \<Rightarrow> v)"
| "getprop (Arr xs) k = (if k = ''0'' then (case xs of [] \<Rightarrow> Undefined | x # _ \<Rightarrow> x) else Undefined)"
| "getprop (Str s) k = (if k = ''0'' then (case s of [] \<Rightarrow> Undefined | c # _ \<Rightarrow> Str [c]) else Undefined)"
| "getprop v k = Undefined"

text \<open>\<open>v.k\<close> throws a TypeError when \<open>v\<close> is \<open>undefined\<close> or \<open>null\<close>; the error's message
  is the one V8 gives. An exception is the \<open>Inl\<close> of a sum, carrying the error's message.\<close>

definition apostrophe :: string where
  "apostrophe = [CHR 0x27]"

fun type_name :: "jsval \<Rightarrow> string" where
  "type_name Null = ''null''"
| "type_name v = ''undefined''"

definition type_error :: "jsval \<Rightarrow> string \<Rightarrow> string" where
  "type_error v k =
     ''Cannot read properties of '' @ type_name v @ '' (reading '' @ apostrophe @ k @ apostrophe @ '')''"

definition member :: "jsval \<Rightarrow> string \<Rightarrow> string + jsval" where
  "member v k = (if nullish v then Inl (type_error v k) else Inr (getprop v k))"

text \<open>\<open>v?.k\<close> and \<open>v?.[0]\<close>: \<open>undefined\<close> when \<open>v\<close> is \<open>undefined\<close> or \<open>null\<close>.\<close>

definition opt_member :: "jsval \<Rightarrow> string \<Rightarrow> jsval" where
  "opt_member v k = (if nullish v then Undefined else getprop v k)"

text \<open>\<open>a || b\<close>\<close>

definition js_or :: "jsval \<Rightarrow> jsval \<Rightarrow> jsval" where
  "js_or a b = (if truthy a then a else b)"

text \<open>
  The string conversion of a template literal \<open>`${v}`\<close>. An array is joined with commas,
  \<open>undefined\<close> and \<open>null\<close> elements printing as nothing. A plain object prints as
  \<open>[object Object]\<close> through \<open>Object.prototype.toString\<close>, unless it has an own property
  \<open>toString\<close>: coming from JSON that property is data, not a function, the conversion falls
  back on \<open>valueOf\<close>, which gives no primitive either, and a TypeError is thrown.
\<close>

fun to_string :: "jsval \<Rightarrow> string + string"
  and join_elems :: "jsval list \<Rightarrow> string + string" where
  "to_string Undefined = Inr ''undefined''"
| "to_string Null = Inr ''null''"
| "to_string (Bool b) = Inr (if b then ''true'' else ''false'')"
| "to_string (Num n) = Inr n"
| "to_string (Str s) = Inr s"
| "to_string (Arr xs) = join_elems xs"
| "to_string (Obj kvs) =
     (if ''toString'' \<in> fst ` set kvs
      then Inl ''Cannot convert object to primitive value''
      else Inr ''[object Object]'')"
| "join_elems [] = Inr []"
| "join_elems (x # xs) =
     (case (if nullish x then Inr [] else to_string x) of
        Inl e \<Rightarrow> Inl e
      | Inr s \<Rightarrow>
          (if xs = [] then Inr s
           else (case join_elems xs of Inl e \<Rightarrow> Inl e | Inr r \<Rightarrow> Inr (s @ '','' @ r))))"

text \<open>Decimal text of a natural number, as \<open>`${response.status}`\<close> prints a status code.\<close>

definition digit :: "nat \<Rightarrow> char" where
  "digit d = ''0123456789'' ! d"

fun show_nat :: "nat \<Rightarrow> string" where
  "show_nat n = (if n < 10 then [digit n] else show_nat (n div 10) @ [digit (n mod 10)])"

declare show_nat.simps [simp del]

section \<open>The request, the provider and what the handler does to the world\<close>

text \<open>
  The inbound request: \<open>req.method\<close> and \<open>req.body\<close>. Reading \<open>req.body\<close> parses the body on
  the hosting platform and throws when the body is not parsable; that is the \<open>Inl\<close>.
  A request without a body has \<open>req.body\<close> \<open>undefined\<close>.
\<close>

record request =
  req_method :: string
  body :: "string + jsval"

text \<open>
  What \<open>fetch\<close> resolves to: the status line and the outcome of \<open>response.json()\<close>, which
  rejects (\<open>Inl\<close>) when the provider's body is not JSON. \<open>fetch\<close> itself rejects on a
  transport failure.
\<close>

record fetch_response =
  status :: nat
  statusText :: string
  json :: "string + jsval"

datatype fetch_result = Rejected string | Resolved fetch_response

definition ok :: "fetch_response \<Rightarrow> bool" where
  "ok r = (200 \<le> status r \<and> status r \<le> 299)"

text \<open>One outbound call: the arguments of \<open>fetch\<close>. The body is the payload that
  \<open>JSON.stringify\<close> serialises.\<close>

record outbound =
  url :: string
  http_method :: string
  headers :: "(string \<times> string) list"
  payload :: jsval

text \<open>One \<open>res.status(c).json(b)\<close>.\<close>

record reply =
  reply_status :: nat
  reply_body :: jsval

text \<open>A console line: the arguments of \<open>console.error\<close> or \<open>console.warn\<close>. An Error
  object is recorded by its message, \<open>JSON.stringify(v)\<close> by the value \<open>v\<close> it prints.\<close>

datatype console = Console_error "jsval list" | Console_warn "jsval list"

text \<open>
  Everything an invocation does: the outbound calls, the backoff delays (milliseconds),
  the console lines and the responses written, each in order, and the message of the
  exception the handler's promise rejects with, if any.
\<close>

record state =
  calls :: "outbound list"
  delays :: "nat list"
  logs :: "console list"
  replies :: "reply list"
  uncaught :: "string option"

definition init :: state where
  "init = \<lparr>calls = [], delays = [], logs = [], replies = [], uncaught = None\<rparr>"

definition res_json :: "nat \<Rightarrow> jsval \<Rightarrow> state \<Rightarrow> state" where
  "res_json c b st = st\<lparr>replies := replies st @ [\<lparr>reply_status = c, reply_body = b\<rparr>]\<rparr>"

definition console_log :: "console \<Rightarrow> state \<Rightarrow> state" where
  "console_log l st = st\<lparr>logs := logs st @ [l]\<rparr>"

definition sleep :: "nat \<Rightarrow> state \<Rightarrow> state" where
  "sleep ms st = st\<lparr>delays := delays st @ [ms]\<rparr>"

definition do_fetch :: "outbound \<Rightarrow> state \<Rightarrow> state" where
  "do_fetch c st = st\<lparr>calls := calls st @ [c]\<rparr>"

definition throw_uncaught :: "string \<Rightarrow> state \<Rightarrow> state" where
  "throw_uncaught e st = st\<lparr>uncaught := Some e\<rparr>"

section \<open>The constants of the source\<close>

text \<open>The text constants, as UTF-8 bytes: most of them are Chinese text.\<close>

text \<open>The system instruction of line 63 up to \<open>${prompt}\<close>: the adviser's role and task.\<close>

definition systemPrompt_head :: string where
  "systemPrompt_head =
     [CHR 0xE4, CHR 0xBD, CHR 0xA0, CHR 0xE6, CHR 0x98, CHR 0xAF, CHR 0xE4, CHR 0xB8, CHR 0x80,
     CHR 0xE4, CHR 0xBD, CHR 0x8D, CHR 0xE5, CHR 0xB0, CHR 0x88, CHR 0xE6, CHR 0xA5, CHR 0xAD,
     CHR 0xE7, CHR 0x9A, CHR 0x84] @ '' AI PC '' @ [CHR 0xE7, CHR 0xB5, CHR 0x84, CHR 0xE8,
     CHR 0xA3, CHR 0x9D, CHR 0xE9, CHR 0xA1, CHR 0xA7, CHR 0xE5, CHR 0x95, CHR 0x8F, CHR 0xE3,
     CHR 0x80, CHR 0x82, CHR 0xE4, CHR 0xBD, CHR 0xA0, CHR 0xE7, CHR 0x9A, CHR 0x84, CHR 0xE4,
     CHR 0xBB, CHR 0xBB, CHR 0xE5, CHR 0x8B, CHR 0x99, CHR 0xE6, CHR 0x98, CHR 0xAF, CHR 0xE6,
     CHR 0xA0, CHR 0xB9, CHR 0xE6, CHR 0x93, CHR 0x9A, CHR 0xE7, CHR 0x94, CHR 0xA8, CHR 0xE6,
     CHR 0x88, CHR 0xB6, CHR 0xE7, CHR 0x9A, CHR 0x84, CHR 0xE9, CHR 0x9C, CHR 0x80, CHR 0xE6,
     CHR 0xB1, CHR 0x82] @ '' (''"

text \<open>The system instruction after \<open>${prompt}\<close>, lines 63 to 69: the five numbered rules.\<close>

definition systemPrompt_tail :: string where
  "systemPrompt_tail =
     '')'' @ [CHR 0xEF, CHR 0xBC, CHR 0x8C, CHR 0xE5, CHR 0xBE, CHR 0x9E, CHR 0xE6, CHR 0x8F,
     CHR 0x90, CHR 0xE4, CHR 0xBE, CHR 0x9B, CHR 0xE7, CHR 0x9A, CHR 0x84, CHR 0xE7, CHR 0xA1,
     CHR 0xAC, CHR 0xE9, CHR 0xAB, CHR 0x94, CHR 0xE8, CHR 0xA6, CHR 0x8F, CHR 0xE6, CHR 0xA0,
     CHR 0xBC, CHR 0xE5, CHR 0x8F, CHR 0x83, CHR 0xE8, CHR 0x80, CHR 0x83, CHR 0xE5, CHR 0x9C,
     CHR 0x96, CHR 0xE8, CHR 0xA1, CHR 0xA8] @ '' ('' @ [CHR 0xE5, CHR 0xA6, CHR 0x82, CHR 0xE4,
     CHR 0xB8, CHR 0x8B, CHR 0xE6, CHR 0x96, CHR 0xB9] @ '') '' @ [CHR 0xE4, CHR 0xB8, CHR 0xAD,
     CHR 0xEF, CHR 0xBC, CHR 0x8C, CHR 0xE6, CHR 0x8C, CHR 0x91, CHR 0xE9, CHR 0x81, CHR 0xB8,
     CHR 0xE5, CHR 0x87, CHR 0xBA, CHR 0xE6, CHR 0x9C, CHR 0x80, CHR 0xE9, CHR 0x81, CHR 0xA9,
     CHR 0xE5, CHR 0x90, CHR 0x88, CHR 0xE7, CHR 0x9A, CHR 0x84, CHR 0xE9, CHR 0x9B, CHR 0xBB,
     CHR 0xE8, CHR 0x85, CHR 0xA6, CHR 0xE7, CHR 0xB5, CHR 0x84, CHR 0xE4, CHR 0xBB, CHR 0xB6,
     CHR 0xEF, CHR 0xBC, CHR 0x8C, CHR 0xE4, CHR 0xB8, CHR 0xA6, CHR 0xE4, CHR 0xBB, CHR 0xA5] @
     '' JSON '' @ [CHR 0xE6, CHR 0xA0, CHR 0xBC, CHR 0xE5, CHR 0xBC, CHR 0x8F, CHR 0xE8, CHR 0xBC,
     CHR 0xB8, CHR 0xE5, CHR 0x87, CHR 0xBA, CHR 0xE3, CHR 0x80, CHR 0x82, CHR 0x0A, CHR 0x0A] @
     ''1. '' @ [CHR 0xE8, CHR 0xAB, CHR 0x8B, CHR 0xE5, CHR 0x8B, CHR 0x99, CHR 0xE5, CHR 0xBF,
     CHR 0x85, CHR 0xE8, CHR 0xBC, CHR 0xB8, CHR 0xE5, CHR 0x87, CHR 0xBA] @ '' 8 '' @ [CHR 0xE5,
     CHR 0x80, CHR 0x8B, CHR 0xE4, CHR 0xB8, CHR 0xBB, CHR 0xE8, CHR 0xA6, CHR 0x81, CHR 0xE7,
     CHR 0xB5, CHR 0x84, CHR 0xE4, CHR 0xBB, CHR 0xB6, CHR 0xEF, CHR 0xBC, CHR 0x9A, CHR 0xE4,
     CHR 0xB8, CHR 0xBB, CHR 0xE6, CHR 0xA9, CHR 0x9F, CHR 0xE6, CHR 0x9D, CHR 0xBF, CHR 0xE3,
     CHR 0x80, CHR 0x81, CHR 0xE8, CHR 0x99, CHR 0x95, CHR 0xE7, CHR 0x90, CHR 0x86, CHR 0xE5,
     CHR 0x99, CHR 0xA8, CHR 0xE3, CHR 0x80, CHR 0x81, CHR 0xE6, CHR 0x95, CHR 0xA3, CHR 0xE7,
     CHR 0x86, CHR 0xB1, CHR 0xE5, CHR 0x99, CHR 0xA8, CHR 0xE3, CHR 0x80, CHR 0x81, CHR 0xE8,
     CHR 0xA8, CHR 0x98, CHR 0xE6, CHR 0x86, CHR 0xB6, CHR 0xE9, CHR 0xAB, CHR 0x94, CHR 0xE3,
     CHR 0x80, CHR 0x81, CHR 0xE9, CHR 0xA1, CHR 0xAF, CHR 0xE7, CHR 0xA4, CHR 0xBA, CHR 0xE5,
     CHR 0x8D, CHR 0xA1, CHR 0xE3, CHR 0x80, CHR 0x81, CHR 0xE5, CHR 0x84, CHR 0xB2, CHR 0xE5,
     CHR 0xAD, CHR 0x98, CHR 0xE8, CHR 0xA3, CHR 0x9D, CHR 0xE7, CHR 0xBD, CHR 0xAE, CHR 0xE3,
     CHR 0x80, CHR 0x81, CHR 0xE9, CHR 0x9B, CHR 0xBB, CHR 0xE6, CHR 0xBA, CHR 0x90, CHR 0xE4,
     CHR 0xBE, CHR 0x9B, CHR 0xE6, CHR 0x87, CHR 0x89, CHR 0xE5, CHR 0x99, CHR 0xA8, CHR 0xE3,
     CHR 0x80, CHR 0x81, CHR 0xE6, CHR 0xA9, CHR 0x9F, CHR 0xE6, CHR 0xAE, CHR 0xBC, CHR 0xE3,
     CHR 0x80, CHR 0x82, CHR 0x0A] @ ''2. componentName '' @ [CHR 0xE5, CHR 0xBF, CHR 0x85,
     CHR 0xE9, CHR 0xA0, CHR 0x88, CHR 0xE6, CHR 0x98, CHR 0xAF, CHR 0xE7, CHR 0xB5, CHR 0x84,
     CHR 0xE4, CHR 0xBB, CHR 0xB6, CHR 0xE7, CHR 0x9A, CHR 0x84, CHR 0xE4, CHR 0xB8, CHR 0xAD,
     CHR 0xE6, CHR 0x96, CHR 0x87, CHR 0xE5, CHR 0x90, CHR 0x8D, CHR 0xE7, CHR 0xA8, CHR 0xB1,
     CHR 0xE5, CHR 0x92, CHR 0x8C, CHR 0xE7, CHR 0xB0, CHR 0xA1, CHR 0xE5, CHR 0xAF, CHR 0xAB,
     CHR 0xEF, CHR 0xBC, CHR 0x88, CHR 0xE4, CHR 0xBE, CHR 0x8B, CHR 0xE5, CHR 0xA6, CHR 0x82,
     CHR 0xEF, CHR 0xBC, CHR 0x9A, CHR 0xE8, CHR 0x99, CHR 0x95, CHR 0xE7, CHR 0x90, CHR 0x86,
     CHR 0xE5, CHR 0x99, CHR 0xA8] @ ''(CPU)'' @ [CHR 0xEF, CHR 0xBC, CHR 0x89, CHR 0xE3, CHR 0x80,
     CHR 0x82, CHR 0x0A] @ ''3. componentDescription '' @ [CHR 0xE5, CHR 0xBF, CHR 0x85, CHR 0xE9,
     CHR 0xA0, CHR 0x88, CHR 0xE5, CHR 0x8C, CHR 0x85, CHR 0xE5, CHR 0x90, CHR 0xAB, CHR 0xE5,
     CHR 0x85, CHR 0xB7, CHR 0xE9, CHR 0xAB, CHR 0x94, CHR 0xE7, CHR 0x9A, CHR 0x84, CHR 0xE5,
     CHR 0x9E, CHR 0x8B, CHR 0xE8, CHR 0x99, CHR 0x9F, CHR 0xE3, CHR 0x80, CHR 0x81, CHR 0xE8,
     CHR 0xA6, CHR 0x8F, CHR 0xE6, CHR 0xA0, CHR 0xBC, CHR 0xE5, CHR 0x92, CHR 0x8C, CHR 0xE7,
     CHR 0xB0, CHR 0xA1, CHR 0xE7, CHR 0x9F, CHR 0xAD, CHR 0xE7, CHR 0x9A, CHR 0x84, CHR 0xE6,
     CHR 0x8E, CHR 0xA8, CHR 0xE8, CHR 0x96, CHR 0xA6, CHR 0xE7, CHR 0x90, CHR 0x86, CHR 0xE7,
     CHR 0x94, CHR 0xB1, CHR 0xEF, CHR 0xBC, CHR 0x8C, CHR 0xE4, CHR 0xB8, CHR 0xA6, CHR 0xE7,
     CHR 0xA2, CHR 0xBA, CHR 0xE4, CHR 0xBF, CHR 0x9D, CHR 0xE6, CHR 0x89, CHR 0x80, CHR 0xE6,
     CHR 0x9C, CHR 0x89, CHR 0xE7, CHR 0xB5, CHR 0x84, CHR 0xE4, CHR 0xBB, CHR 0xB6, CHR 0xE4,
     CHR 0xB9, CHR 0x8B, CHR 0xE9, CHR 0x96, CHR 0x93, CHR 0xE6, CHR 0x98, CHR 0xAF, CHR 0xE5,
     CHR 0xAE, CHR 0x8C, CHR 0xE5, CHR 0x85, CHR 0xA8, CHR 0xE7, CHR 0x9B, CHR 0xB8, CHR 0xE5,
     CHR 0xAE, CHR 0xB9, CHR 0xE7, CHR 0x9A, CHR 0x84, CHR 0xEF, CHR 0xBC, CHR 0x88, CHR 0xE4,
     CHR 0xBE, CHR 0x8B, CHR 0xE5, CHR 0xA6, CHR 0x82, CHR 0xEF, CHR 0xBC, CHR 0x9A] @ ''CPU '' @
     [CHR 0xE8, CHR 0x88, CHR 0x87] @ '' MB '' @ [CHR 0xE7, CHR 0x9A, CHR 0x84, CHR 0xE8, CHR 0x85,
     CHR 0xB3, CHR 0xE4, CHR 0xBD, CHR 0x8D] @ ''/'' @ [CHR 0xE6, CHR 0x99, CHR 0xB6, CHR 0xE7,
     CHR 0x89, CHR 0x87, CHR 0xE7, CHR 0xB5, CHR 0x84, CHR 0xE3, CHR 0x80, CHR 0x81] @ ''MB '' @
     [CHR 0xE8, CHR 0x88, CHR 0x87] @ '' RAM '' @ [CHR 0xE7, CHR 0x9A, CHR 0x84, CHR 0xE4, CHR 0xB8,
     CHR 0x96, CHR 0xE4, CHR 0xBB, CHR 0xA3, CHR 0xEF, CHR 0xBC, CHR 0x89, CHR 0xE3, CHR 0x80,
     CHR 0x82, CHR 0x0A] @ ''4. '' @ [CHR 0xE4, CHR 0xBD, CHR 0xA0, CHR 0xE5, CHR 0xBF, CHR 0x85,
     CHR 0xE9, CHR 0xA0, CHR 0x88, CHR 0xE5, CHR 0x9A, CHR 0xB4, CHR 0xE6, CHR 0xA0, CHR 0xBC,
     CHR 0xE9, CHR 0x81, CHR 0xB5, CHR 0xE5, CHR 0xBE, CHR 0xAA, CHR 0xE6, CHR 0x8F, CHR 0x90,
     CHR 0xE4, CHR 0xBE, CHR 0x9B, CHR 0xE7, CHR 0x9A, CHR 0x84] @ '' JSON Schema'' @ [CHR 0xEF,
     CHR 0xBC, CHR 0x8C, CHR 0xE4, CHR 0xB8, CHR 0xA6, CHR 0xE5, CHR 0x8F, CHR 0xAA, CHR 0xE8,
     CHR 0xBC, CHR 0xB8, CHR 0xE5, CHR 0x87, CHR 0xBA] @ '' JSON '' @ [CHR 0xE5, CHR 0x85, CHR 0xA7,
     CHR 0xE5, CHR 0xAE, CHR 0xB9, CHR 0xEF, CHR 0xBC, CHR 0x8C, CHR 0xE4, CHR 0xB8, CHR 0x8D,
     CHR 0xE5, CHR 0x8C, CHR 0x85, CHR 0xE5, CHR 0x90, CHR 0xAB, CHR 0xE4, CHR 0xBB, CHR 0xBB,
     CHR 0xE4, CHR 0xBD, CHR 0x95, CHR 0xE9, CHR 0xA1, CHR 0x8D, CHR 0xE5, CHR 0xA4, CHR 0x96,
     CHR 0xE7, CHR 0x9A, CHR 0x84, CHR 0xE6, CHR 0x96, CHR 0x87, CHR 0xE5, CHR 0xAD, CHR 0x97,
     CHR 0xE6, CHR 0x88, CHR 0x96] @ '' Markdown '' @ [CHR 0xE6, CHR 0xA8, CHR 0x99, CHR 0xE8,
     CHR 0xA8, CHR 0x98, CHR 0xE3, CHR 0x80, CHR 0x82, CHR 0x0A] @ ''5. '' @ [CHR 0xE6, CHR 0x8F,
     CHR 0x90, CHR 0xE4, CHR 0xBE, CHR 0x9B, CHR 0xE7, CHR 0x9A, CHR 0x84, CHR 0xE7, CHR 0xA1,
     CHR 0xAC, CHR 0xE9, CHR 0xAB, CHR 0x94, CHR 0xE6, CHR 0x95, CHR 0xB8, CHR 0xE6, CHR 0x93,
     CHR 0x9A, CHR 0xE6, CHR 0x98, CHR 0xAF, CHR 0xE5, CHR 0x8F, CHR 0x83, CHR 0xE8, CHR 0x80,
     CHR 0x83, CHR 0xE8, CHR 0xB3, CHR 0x87, CHR 0xE6, CHR 0x96, CHR 0x99, CHR 0xEF, CHR 0xBC,
     CHR 0x8C, CHR 0xE4, CHR 0xBD, CHR 0xA0, CHR 0xE6, CHR 0x87, CHR 0x89, CHR 0xE6, CHR 0xA0,
     CHR 0xB9, CHR 0xE6, CHR 0x93, CHR 0x9A, CHR 0xE9, CHR 0x80, CHR 0x99, CHR 0xE4, CHR 0xBA,
     CHR 0x9B, CHR 0xE4, CHR 0xBF, CHR 0xA1, CHR 0xE6, CHR 0x81, CHR 0xAF, CHR 0xE9, CHR 0x80,
     CHR 0xB2, CHR 0xE8, CHR 0xA1, CHR 0x8C, CHR 0xE5, CHR 0x90, CHR 0x88, CHR 0xE7, CHR 0x90,
     CHR 0x86, CHR 0xE7, CHR 0x9A, CHR 0x84, CHR 0xE7, CHR 0xA1, CHR 0xAC, CHR 0xE9, CHR 0xAB,
     CHR 0x94, CHR 0xE6, CHR 0x90, CHR 0xAD, CHR 0xE9, CHR 0x85, CHR 0x8D, CHR 0xE3, CHR 0x80,
     CHR 0x82]"

text \<open>Line 71 before \<open>${prompt}\<close>: the label of the user's requirement.\<close>

definition userQuery_label :: string where
  "userQuery_label =
     [CHR 0xE7, CHR 0x94, CHR 0xA8, CHR 0xE6, CHR 0x88, CHR 0xB6, CHR 0xE9, CHR 0x9C, CHR 0x80,
     CHR 0xE6, CHR 0xB1, CHR 0x82] @ '': ''"

text \<open>Line 71 between \<open>${prompt}\<close> and \<open>${hardwareData}\<close>: two newlines, the label of the
  reference table, a newline.\<close>

definition userQuery_table :: string where
  "userQuery_table =
     [CHR 0x0A, CHR 0x0A, CHR 0xE7, CHR 0xA1, CHR 0xAC, CHR 0xE9, CHR 0xAB, CHR 0x94, CHR 0xE8,
     CHR 0xA6, CHR 0x8F, CHR 0xE6, CHR 0xA0, CHR 0xBC, CHR 0xE5, CHR 0x8F, CHR 0x83, CHR 0xE8,
     CHR 0x80, CHR 0x83, CHR 0xE5, CHR 0x9C, CHR 0x96, CHR 0xE8, CHR 0xA1, CHR 0xA8] @ '':'' @
     [CHR 0x0A]"

text \<open>The message of line 42: server configuration error, no API key found.\<close>

definition MSG_NO_KEY :: string where
  "MSG_NO_KEY =
     [CHR 0xE4, CHR 0xBC, CHR 0xBA, CHR 0xE6, CHR 0x9C, CHR 0x8D, CHR 0xE5, CHR 0x99, CHR 0xA8,
     CHR 0xE9, CHR 0x85, CHR 0x8D, CHR 0xE7, CHR 0xBD, CHR 0xAE, CHR 0xE9, CHR 0x8C, CHR 0xAF,
     CHR 0xE8, CHR 0xAA, CHR 0xA4, CHR 0xEF, CHR 0xBC, CHR 0x9A, CHR 0xE6, CHR 0x9C, CHR 0xAA,
     CHR 0xE6, CHR 0x89, CHR 0xBE, CHR 0xE5, CHR 0x88, CHR 0xB0] @ '' API '' @ [CHR 0xE9, CHR 0x87,
     CHR 0x91, CHR 0xE9, CHR 0x91, CHR 0xB0, CHR 0xE3, CHR 0x80, CHR 0x82, CHR 0xE8, CHR 0xAB,
     CHR 0x8B, CHR 0xE6, CHR 0xAA, CHR 0xA2, CHR 0xE6, CHR 0x9F, CHR 0xA5] @ '' Vercel '' @
     [CHR 0xE7, CHR 0x92, CHR 0xB0, CHR 0xE5, CHR 0xA2, CHR 0x83, CHR 0xE8, CHR 0xAE, CHR 0x8A,
     CHR 0xE6, CHR 0x95, CHR 0xB8] @ '' GEMINI_API_KEY '' @ [CHR 0xE6, CHR 0x98, CHR 0xAF, CHR 0xE5,
     CHR 0x90, CHR 0xA6, CHR 0xE5, CHR 0xB7, CHR 0xB2, CHR 0xE8, CHR 0xA8, CHR 0xAD, CHR 0xE5,
     CHR 0xAE, CHR 0x9A, CHR 0xE3, CHR 0x80, CHR 0x82]"

text \<open>The message of line 129: the list could not be generated, the API call failed.\<close>

definition MSG_CALL_FAILED :: string where
  "MSG_CALL_FAILED =
     [CHR 0xE7, CHR 0x84, CHR 0xA1, CHR 0xE6, CHR 0xB3, CHR 0x95, CHR 0xE7, CHR 0x94, CHR 0x9F,
     CHR 0xE6, CHR 0x88, CHR 0x90, CHR 0xE8, CHR 0xA6, CHR 0x8F, CHR 0xE6, CHR 0xA0, CHR 0xBC,
     CHR 0xE6, CHR 0xB8, CHR 0x85, CHR 0xE5, CHR 0x96, CHR 0xAE, CHR 0xE3, CHR 0x80, CHR 0x82] @
     ''Gemini API '' @ [CHR 0xE5, CHR 0x91, CHR 0xBC, CHR 0xE5, CHR 0x8F, CHR 0xAB, CHR 0xE5,
     CHR 0xA4, CHR 0xB1, CHR 0xE6, CHR 0x95, CHR 0x97, CHR 0xEF, CHR 0xBC, CHR 0x8C, CHR 0xE8,
     CHR 0xAB, CHR 0x8B, CHR 0xE6, CHR 0xAA, CHR 0xA2, CHR 0xE6, CHR 0x9F, CHR 0xA5] @ '' API '' @
     [CHR 0xE9, CHR 0x87, CHR 0x91, CHR 0xE9, CHR 0x91, CHR 0xB0, CHR 0xE3, CHR 0x80, CHR 0x81,
     CHR 0xE7, CHR 0xB5, CHR 0x90, CHR 0xE5, CHR 0xB8, CHR 0xB3, CHR 0xE5, CHR 0x92, CHR 0x8C,
     CHR 0xE9, CHR 0x85, CHR 0x8D, CHR 0xE9, CHR 0xA1, CHR 0x8D, CHR 0xE3, CHR 0x80, CHR 0x82]"

text \<open>The message of line 158: the model generated invalid JSON.\<close>

definition MSG_INVALID_JSON :: string where
  "MSG_INVALID_JSON =
     ''AI '' @ [CHR 0xE7, CHR 0x94, CHR 0x9F, CHR 0xE6, CHR 0x88, CHR 0x90, CHR 0xE4, CHR 0xBA,
     CHR 0x86, CHR 0xE7, CHR 0x84, CHR 0xA1, CHR 0xE6, CHR 0x95, CHR 0x88, CHR 0xE7, CHR 0x9A,
     CHR 0x84] @ '' JSON '' @ [CHR 0xE6, CHR 0xA0, CHR 0xBC, CHR 0xE5, CHR 0xBC, CHR 0x8F, CHR 0xEF,
     CHR 0xBC, CHR 0x8C, CHR 0xE5, CHR 0x8F, CHR 0xAF, CHR 0xE8, CHR 0x83, CHR 0xBD, CHR 0xE5,
     CHR 0x9B, CHR 0xA0, CHR 0xE7, CHR 0x82, CHR 0xBA, CHR 0xE5, CHR 0xAE, CHR 0x89, CHR 0xE5,
     CHR 0x85, CHR 0xA8, CHR 0xE9, CHR 0x81, CHR 0x8E, CHR 0xE6, CHR 0xBF, CHR 0xBE, CHR 0xE6,
     CHR 0x88, CHR 0x96, CHR 0xE6, CHR 0xA8, CHR 0xA1, CHR 0xE5, CHR 0x9E, CHR 0x8B, CHR 0xE8,
     CHR 0xBC, CHR 0xB8, CHR 0xE9, CHR 0xBD, CHR 0xA3, CHR 0xE9, CHR 0x8C, CHR 0xAF, CHR 0xE8,
     CHR 0xAA, CHR 0xA4, CHR 0xE3, CHR 0x80, CHR 0x82]"

text \<open>The two \<open>description\<close> strings of the schema, lines 16 and 20.\<close>

definition DESC_componentName :: string where
  "DESC_componentName =
     [CHR 0xE9, CHR 0x9B, CHR 0xBB, CHR 0xE8, CHR 0x85, CHR 0xA6, CHR 0xE7, CHR 0xB5, CHR 0x84,
     CHR 0xE4, CHR 0xBB, CHR 0xB6, CHR 0xE7, CHR 0x9A, CHR 0x84, CHR 0xE5, CHR 0x90, CHR 0x8D,
     CHR 0xE7, CHR 0xA8, CHR 0xB1, CHR 0xE5, CHR 0x92, CHR 0x8C, CHR 0xE7, CHR 0xB0, CHR 0xA1,
     CHR 0xE5, CHR 0xAF, CHR 0xAB, CHR 0xEF, CHR 0xBC, CHR 0x88, CHR 0xE4, CHR 0xBE, CHR 0x8B,
     CHR 0xE5, CHR 0xA6, CHR 0x82, CHR 0xEF, CHR 0xBC, CHR 0x9A, CHR 0xE8, CHR 0x99, CHR 0x95,
     CHR 0xE7, CHR 0x90, CHR 0x86, CHR 0xE5, CHR 0x99, CHR 0xA8] @ ''(CPU), '' @ [CHR 0xE9,
     CHR 0xA1, CHR 0xAF, CHR 0xE7, CHR 0xA4, CHR 0xBA, CHR 0xE5, CHR 0x8D, CHR 0xA1] @ ''(GPU)'' @
     [CHR 0xEF, CHR 0xBC, CHR 0x89, CHR 0xE3, CHR 0x80, CHR 0x82]"

definition DESC_componentDescription :: string where
  "DESC_componentDescription =
     [CHR 0xE6, CHR 0xA0, CHR 0xB9, CHR 0xE6, CHR 0x93, CHR 0x9A, CHR 0xE7, CHR 0x94, CHR 0xA8,
     CHR 0xE6, CHR 0x88, CHR 0xB6, CHR 0xE9, CHR 0x9C, CHR 0x80, CHR 0xE6, CHR 0xB1, CHR 0x82,
     CHR 0xE6, CHR 0x8E, CHR 0xA8, CHR 0xE8, CHR 0x96, CHR 0xA6, CHR 0xE7, CHR 0x9A, CHR 0x84,
     CHR 0xE5, CHR 0x85, CHR 0xB7, CHR 0xE9, CHR 0xAB, CHR 0x94, CHR 0xE5, CHR 0x9E, CHR 0x8B,
     CHR 0xE8, CHR 0x99, CHR 0x9F, CHR 0xE3, CHR 0x80, CHR 0x81, CHR 0xE8, CHR 0xA6, CHR 0x8F,
     CHR 0xE6, CHR 0xA0, CHR 0xBC, CHR 0xE5, CHR 0x92, CHR 0x8C, CHR 0xE7, CHR 0xB0, CHR 0xA1,
     CHR 0xE7, CHR 0x9F, CHR 0xAD, CHR 0xE7, CHR 0x9A, CHR 0x84, CHR 0xE6, CHR 0x8E, CHR 0xA8,
     CHR 0xE8, CHR 0x96, CHR 0xA6, CHR 0xE7, CHR 0x90, CHR 0x86, CHR 0xE7, CHR 0x94, CHR 0xB1,
     CHR 0xEF, CHR 0xBC, CHR 0x8C, CHR 0xE4, CHR 0xB8, CHR 0xA6, CHR 0xE7, CHR 0xA2, CHR 0xBA,
     CHR 0xE4, CHR 0xBF, CHR 0x9D, CHR 0xE6, CHR 0x89, CHR 0x80, CHR 0xE6, CHR 0x9C, CHR 0x89,
     CHR 0xE7, CHR 0xB5, CHR 0x84, CHR 0xE4, CHR 0xBB, CHR 0xB6, CHR 0xE4, CHR 0xB9, CHR 0x8B,
     CHR 0xE9, CHR 0x96, CHR 0x93, CHR 0xE6, CHR 0x98, CHR 0xAF, CHR 0xE5, CHR 0xAE, CHR 0x8C,
     CHR 0xE5, CHR 0x85, CHR 0xA8, CHR 0xE7, CHR 0x9B, CHR 0xB8, CHR 0xE5, CHR 0xAE, CHR 0xB9,
     CHR 0xE7, CHR 0x9A, CHR 0x84, CHR 0xE3, CHR 0x80, CHR 0x82]"

definition API_URL :: string where
  "API_URL = ''https://generativelanguage.googleapis.com/v1beta/models/gemini-2.5-flash-preview-09-2025:generateContent?key=''"

definition responseSchema :: jsval where
  "responseSchema =
     Obj [(''type'', Str ''ARRAY''),
          (''items'', Obj [
             (''type'', Str ''OBJECT''),
             (''properties'', Obj [
                (''componentName'', Obj [(''type'', Str ''STRING''),
                                         (''description'', Str DESC_componentName)]),
                (''componentDescription'', Obj [(''type'', Str ''STRING''),
                                                (''description'', Str DESC_componentDescription)])]),
             (''required'', Arr [Str ''componentName'', Str ''componentDescription'']),
             (''propertyOrdering'', Arr [Str ''componentName'', Str ''componentDescription''])])]"

definition MAX_RETRIES :: nat where
  "MAX_RETRIES = 5"

section \<open>The handler\<close>

text \<open>A template literal that ends in \<open>${v}\<close>, thrown as an Error: the conversion of \<open>v\<close>
  may itself throw.\<close>

definition throw_template :: "string \<Rightarrow> jsval \<Rightarrow> string + jsval" where
  "throw_template pre v = (case to_string v of Inl e \<Rightarrow> Inl e | Inr s \<Rightarrow> Inl (pre @ s))"

text \<open>
  The \<open>try\<close> block of the retry loop, given what \<open>fetch\<close> did on this attempt: the message
  of the error it throws, or the parsed envelope it assigns to \<open>apiResponse\<close> before
  \<open>break\<close>. A non-ok status throws in all three branches.
\<close>

definition try_attempt :: "fetch_result \<Rightarrow> string + jsval" where
  "try_attempt r =
     (case r of
        Rejected e \<Rightarrow> Inl e
      | Resolved response \<Rightarrow>
          if \<not> ok response then
            (let errorData = (case json response of Inl e \<Rightarrow> Obj [] | Inr d \<Rightarrow> d) in
             case member errorData ''error'' of
               Inl e \<Rightarrow> Inl e
             | Inr err \<Rightarrow>
                 (let errorMessage = js_or (opt_member err ''message'') (Str (statusText response)) in
                  if status response = 403 \<or> status response = 400 then
                    throw_template
                      (''Gemini API Failed (Status: '' @ show_nat (status response) @
                       ''). Check Key validity, Billing, and API Enablement. Message: '')
                      errorMessage
                  else if status response = 429 \<or> status response \<ge> 500 then
                    throw_template
                      (''API returned status '' @ show_nat (status response) @
                       ''. Retrying... Message: '')
                      errorMessage
                  else
                    throw_template
                      (''API returned unhandled status '' @ show_nat (status response) @
                       ''. Message: '')
                      errorMessage))
          else json response)"

text \<open>How the \<open>for\<close> loop is left: by the \<open>return\<close> in its \<open>catch\<close>, or towards the code
  after it, with \<open>apiResponse\<close> as it then is.\<close>

datatype loop_exit = Return | Proceed jsval

text \<open>
  \<open>for (let i = 0; i < MAX_RETRIES; i++)\<close>, from index \<open>i\<close> on. \<open>fetch i\<close> is what the
  provider does on the call of iteration \<open>i\<close>. In the \<open>catch\<close>, \<open>lastError\<close> is the error just
  caught, so \<open>lastError.message\<close> is its message.
\<close>

definition CALL_FAILED_body :: "string \<Rightarrow> jsval" where
  "CALL_FAILED_body e = Obj [(''message'', Str MSG_CALL_FAILED), (''errorDetails'', Str e)]"

function retry_loop ::
  "(nat \<Rightarrow> fetch_result) \<Rightarrow> outbound \<Rightarrow> nat \<Rightarrow> jsval \<Rightarrow> state \<Rightarrow> loop_exit \<times> state" where
  "retry_loop fetch call i apiResponse st =
     (if i < MAX_RETRIES then
        (let st1 = do_fetch call st in
         case try_attempt (fetch i) of
           Inr v \<Rightarrow> (Proceed v, st1)
         | Inl e \<Rightarrow>
             if i < MAX_RETRIES - 1 then
               (let delay = 2 ^ i * 1000;
                    st2 = console_log (Console_warn [Str (''[Retry '' @ show_nat (i + 1) @
                            ''] API call failed: '' @ e @ ''. Delaying '' @ show_nat delay @
                            ''ms...'')]) st1;
                    st3 = sleep delay st2
                in retry_loop fetch call (i + 1) apiResponse st3)
             else
               (Return,
                res_json 500 (CALL_FAILED_body e)
                  (console_log (Console_error [Str ''Gemini API call failed after max retries:'',
                                               Str e]) st1)))
      else (Proceed apiResponse, st))"
  by pat_completeness auto
termination
  by (relation "measure (\<lambda>(fetch, call, i, apiResponse, st). MAX_RETRIES - i)") auto

declare retry_loop.simps [simp del]

text \<open>
  The \<open>try\<close> block after the loop: the error it throws or the value of \<open>parsedJson\<close>,
  and the console line of the empty-content branch. \<open>JSON_parse\<close> is \<open>JSON.parse\<close> on a
  string; given anything else \<open>JSON.parse\<close> converts it to a string first.
\<close>

definition parse_output ::
  "(string \<Rightarrow> string + jsval) \<Rightarrow> jsval \<Rightarrow> state \<Rightarrow> (string + jsval) \<times> state" where
  "parse_output JSON_parse apiResponse st =
     (case member apiResponse ''candidates'' of
        Inl e \<Rightarrow> (Inl e, st)
      | Inr candidates \<Rightarrow>
          (let candidate = opt_member candidates ''0'' in
           case member candidate ''content'' of
             Inl e \<Rightarrow> (Inl e, st)
           | Inr content \<Rightarrow>
               (let jsonText = opt_member (opt_member (opt_member content ''parts'') ''0'') ''text'' in
                if \<not> truthy jsonText then
                  (let finishReason = js_or (opt_member candidate ''finishReason'') (Str ''UNKNOWN'');
                       safetyRatings = js_or (opt_member candidate ''safetyRatings'') (Str ''N/A'');
                       st1 = console_log (Console_error
                               [Str ''Gemini returned empty content. Finish Reason:'', finishReason,
                                Str ''Safety:'', safetyRatings]) st
                   in (throw_template ''Gemini returned empty content. Finish Reason: '' finishReason,
                       st1))
                else
                  (case to_string jsonText of
                     Inl e \<Rightarrow> (Inl e, st)
                   | Inr t \<Rightarrow> (JSON_parse t, st)))))"

definition INVALID_JSON_body :: "string \<Rightarrow> jsval" where
  "INVALID_JSON_body e = Obj [(''message'', Str MSG_INVALID_JSON), (''errorDetails'', Str e)]"

text \<open>Step 4 of the handler: the \<open>try\<close> block and its \<open>catch\<close>.\<close>

definition respond :: "(string \<Rightarrow> string + jsval) \<Rightarrow> jsval \<Rightarrow> state \<Rightarrow> state" where
  "respond JSON_parse apiResponse st =
     (case parse_output JSON_parse apiResponse st of
        (Inr parsedJson, st1) \<Rightarrow> res_json 200 parsedJson st1
      | (Inl e, st1) \<Rightarrow>
          res_json 500 (INVALID_JSON_body e)
            (console_log (Console_error [Str ''Error parsing or sending final response:'', Str e])
               st1))"

definition build_payload :: "string \<Rightarrow> string \<Rightarrow> jsval" where
  "build_payload userQuery systemPrompt =
     Obj [(''contents'', Arr [Obj [(''parts'', Arr [Obj [(''text'', Str userQuery)]])]]),
          (''systemInstruction'', Obj [(''parts'', Arr [Obj [(''text'', Str systemPrompt)]])]),
          (''generationConfig'', Obj [(''responseMimeType'', Str ''application/json''),
                                      (''responseSchema'', responseSchema)])]"

definition no_api_key :: state where
  "no_api_key =
     res_json 500 (Obj [(''message'', Str MSG_NO_KEY),
                        (''errorCode'', Str ''NO_API_KEY_CONFIGURED'')])
       (console_log (Console_error
          [Str ''[CRITICAL] GEMINI_API_KEY environment variable is not set on Vercel.'']) init)"

text \<open>
  The handler up to the retry loop (lines 30 to 82 of the source): either the invocation
  is over, in the state given (\<open>Inl\<close>), or the arguments of \<open>fetch\<close> are built (\<open>Inr\<close>).
  \<open>GEMINI_API_KEY\<close> is \<open>process.env.GEMINI_API_KEY\<close>, \<open>None\<close> when the variable is not set;
  \<open>!apiKey\<close> holds for an unset variable and for an empty one.
  Destructuring \<open>req.body\<close> throws when it is \<open>undefined\<close> or \<open>null\<close>, inside the \<open>try\<close>.
  The two template literals that build \<open>systemPrompt\<close> and \<open>userQuery\<close> stand outside
  every \<open>try\<close>: when the conversion of \<open>prompt\<close> or \<open>hardwareData\<close> throws, the handler's
  promise rejects and nothing is written to \<open>res\<close>.
\<close>

definition validate_and_build :: "string option \<Rightarrow> request \<Rightarrow> state + outbound" where
  "validate_and_build GEMINI_API_KEY req =
     (if req_method req \<noteq> ''POST'' then
        Inl (res_json 405 (Obj [(''message'', Str ''Method Not Allowed, please use POST.'')]) init)
      else
        (case GEMINI_API_KEY of
           None \<Rightarrow> Inl no_api_key
         | Some apiKey \<Rightarrow>
           if apiKey = [] then Inl no_api_key
           else
           (let apiUrl = API_URL @ apiKey in
            case (case body req of
                    Inl e \<Rightarrow> Inl e
                  | Inr b \<Rightarrow>
                      (if nullish b then Inl ''Cannot destructure req.body''
                       else Inr (getprop b ''prompt'', getprop b ''hardwareData''))) of
              Inl e \<Rightarrow>
                Inl (res_json 400 (Obj [(''message'',
                  Str ''Invalid JSON body or missing prompt/hardwareData.'')]) init)
            | Inr (prompt, hardwareData) \<Rightarrow>
                if \<not> truthy prompt then
                  Inl (res_json 400 (Obj [(''message'', Str ''Prompt is required.'')]) init)
                else
                  (case to_string prompt of
                     Inl e \<Rightarrow> Inl (throw_uncaught e init)
                   | Inr p \<Rightarrow>
                       (let systemPrompt = systemPrompt_head @ p @ systemPrompt_tail in
                        case to_string hardwareData of
                          Inl e \<Rightarrow> Inl (throw_uncaught e init)
                        | Inr h \<Rightarrow>
                            (let userQuery = userQuery_label @ p @ userQuery_table @ h;
                                 payload = build_payload userQuery systemPrompt
                             in Inr \<lparr>url = apiUrl, http_method = ''POST'',
                                     headers = [(''Content-Type'', ''application/json'')],
                                     payload = payload\<rparr>))))))"

text \<open>The handler: validation and payload, then the retry loop (\<open>apiResponse\<close> starts as
  \<open>null\<close>), then the parsing of the envelope.\<close>

definition handler ::
  "(string \<Rightarrow> string + jsval) \<Rightarrow> string option \<Rightarrow> (nat \<Rightarrow> fetch_result) \<Rightarrow> request \<Rightarrow> state" where
  "handler JSON_parse GEMINI_API_KEY fetch req =
     (case validate_and_build GEMINI_API_KEY req of
        Inl st \<Rightarrow> st
      | Inr call \<Rightarrow>
          (case retry_loop fetch call 0 Null init of
             (Return, st) \<Rightarrow> st
           | (Proceed apiResponse, st) \<Rightarrow> respond JSON_parse apiResponse st))"

section \<open>Vocabulary of the properties\<close>

text \<open>The provider answers with status \<open>s\<close>.\<close>

definition returns_status :: "fetch_result \<Rightarrow> nat \<Rightarrow> bool" where
  "returns_status r s = (case r of Rejected e \<Rightarrow> False | Resolved response \<Rightarrow> status response = s)"

text \<open>The paths \<open>candidates[0]\<close> of an envelope and \<open>content.parts[0].text\<close> of a candidate,
  \<open>undefined\<close> when a step of the path is missing.\<close>

definition candidate0 :: "jsval \<Rightarrow> jsval" where
  "candidate0 e = getprop (getprop e ''candidates'') ''0''"

definition candidate_text :: "jsval \<Rightarrow> jsval" where
  "candidate_text c = getprop (getprop (getprop (getprop c ''content'') ''parts'') ''0'') ''text''"

text \<open>The user-content string of an outbound call: \<open>contents[0].parts[0].text\<close> of its payload.\<close>

definition user_content :: "outbound \<Rightarrow> jsval" where
  "user_content c =
     getprop (getprop (getprop (getprop (getprop (payload c) ''contents'') ''0'') ''parts'') ''0'') ''text''"

text \<open>The conversion of a value to a string does not throw.\<close>

definition convertible :: "jsval \<Rightarrow> bool" where
  "convertible v = (case to_string v of Inl e \<Rightarrow> False | Inr s \<Rightarrow> True)"

subsection \<open>Sample inputs\<close>

text \<open>A stand-in for \<open>JSON.parse\<close> that accepts two texts.\<close>

definition parse_sample :: "string \<Rightarrow> string + jsval" where
  "parse_sample s =
     (if s = ''[]'' then Inr (Arr [])
      else if s = ''[{}]'' then Inr (Arr [Obj []])
      else Inl ''Unexpected token in JSON'')"

definition post_request :: "jsval \<Rightarrow> request" where
  "post_request b = \<lparr>req_method = ''POST'', body = Inr b\<rparr>"

definition get_request :: request where
  "get_request = \<lparr>req_method = ''GET'', body = Inr Undefined\<rparr>"

definition gaming_body :: jsval where
  "gaming_body = Obj [(''prompt'', Str ''gaming pc''), (''hardwareData'', Str ''CPU: 9800X3D'')]"

definition bare_body :: jsval where
  "bare_body = Obj [(''prompt'', Str ''gaming pc'')]"

definition empty_prompt_body :: jsval where
  "empty_prompt_body = Obj [(''prompt'', Str []), (''hardwareData'', Str ''CPU: 9800X3D'')]"

definition unparsable_request :: request where
  "unparsable_request = \<lparr>req_method = ''POST'', body = Inl ''Unexpected token in JSON''\<rparr>"

definition odd_body :: jsval where
  "odd_body = Obj [(''prompt'', Obj [(''toString'', Num ''1'')])]"

text \<open>A provider answer with status \<open>s\<close> and the error message \<open>m\<close>, as the provider sends it.\<close>

definition error_answer :: "nat \<Rightarrow> string \<Rightarrow> string \<Rightarrow> fetch_result" where
  "error_answer s t m =
     Resolved \<lparr>status = s, statusText = t,
               json = Inr (Obj [(''error'', Obj [(''code'', Num (show_nat s)), (''message'', Str m)])])\<rparr>"

definition ok_answer :: "jsval \<Rightarrow> fetch_result" where
  "ok_answer e = Resolved \<lparr>status = 200, statusText = ''OK'', json = Inr e\<rparr>"

definition text_envelope :: "string \<Rightarrow> jsval" where
  "text_envelope t =
     Obj [(''candidates'', Arr [Obj [
            (''content'', Obj [(''parts'', Arr [Obj [(''text'', Str t)]]), (''role'', Str ''model'')]),
            (''finishReason'', Str ''STOP'')]])]"

definition blocked_envelope :: "jsval \<Rightarrow> jsval" where
  "blocked_envelope ratings =
     Obj [(''candidates'', Arr [Obj [
            (''content'', Obj [(''parts'', Arr []), (''role'', Str ''model'')]),
            (''finishReason'', Str ''SAFETY''),
            (''safetyRatings'', ratings)]])]"

definition sample_ratings :: jsval where
  "sample_ratings =
     Arr [Obj [(''category'', Str ''HARM_CATEGORY_DANGEROUS_CONTENT''), (''probability'', Str ''HIGH'')]]"

definition other_ratings :: jsval where
  "other_ratings =
     Arr [Obj [(''category'', Str ''HARM_CATEGORY_HARASSMENT''), (''probability'', Str ''MEDIUM'')]]"

text \<open>The outbound call that the request with \<open>gaming_body\<close> and the key \<open>k\<close> leads to.\<close>

definition gaming_call :: outbound where
  "gaming_call =
     \<lparr>url = API_URL @ ''k'', http_method = ''POST'',
      headers = [(''Content-Type'', ''application/json'')],
      payload = build_payload
        (userQuery_label @ ''gaming pc'' @ userQuery_table @ ''CPU: 9800X3D'')
        (systemPrompt_head @ ''gaming pc'' @ systemPrompt_tail)\<rparr>"

definition always_forbidden :: "nat \<Rightarrow> fetch_result" where
  "always_forbidden i = error_answer 403 ''Forbidden'' ''API key not valid''"

definition forbidden_then_ok :: "nat \<Rightarrow> fetch_result" where
  "forbidden_then_ok i =
     (if i = 0 then error_answer 403 ''Forbidden'' ''API key not valid''
      else ok_answer (text_envelope ''[]''))"

definition always_limited :: "nat \<Rightarrow> fetch_result" where
  "always_limited i = error_answer 429 ''Too Many Requests'' (''quota exceeded, call '' @ show_nat (i + 1))"

definition limited_then_ok :: "nat \<Rightarrow> fetch_result" where
  "limited_then_ok i =
     (if i < 4 then error_answer 429 ''Too Many Requests'' ''quota exceeded''
      else ok_answer (text_envelope ''[]''))"

definition always_ok :: "jsval \<Rightarrow> nat \<Rightarrow> fetch_result" where
  "always_ok e i = ok_answer e"

section \<open>Auxiliary facts\<close>

lemma opt_member_getprop: "opt_member v k = getprop v k"
  by (cases v) (simp_all add: opt_member_def)

lemma effect_fields [simp]:
  "calls (res_json c b st) = calls st" "delays (res_json c b st) = delays st"
  "logs (res_json c b st) = logs st" "uncaught (res_json c b st) = uncaught st"
  "replies (res_json c b st) = replies st @ [\<lparr>reply_status = c, reply_body = b\<rparr>]"
  "calls (console_log l st) = calls st" "delays (console_log l st) = delays st"
  "logs (console_log l st) = logs st @ [l]" "uncaught (console_log l st) = uncaught st"
  "replies (console_log l st) = replies st"
  "calls (sleep ms st) = calls st" "delays (sleep ms st) = delays st @ [ms]"
  "logs (sleep ms st) = logs st" "uncaught (sleep ms st) = uncaught st"
  "replies (sleep ms st) = replies st"
  "calls (do_fetch call st) = calls st @ [call]" "delays (do_fetch call st) = delays st"
  "logs (do_fetch call st) = logs st" "uncaught (do_fetch call st) = uncaught st"
  "replies (do_fetch call st) = replies st"
  "calls (throw_uncaught e st) = calls st" "delays (throw_uncaught e st) = delays st"
  "logs (throw_uncaught e st) = logs st" "uncaught (throw_uncaught e st) = Some e"
  "replies (throw_uncaught e st) = replies st"
  by (simp_all add: res_json_def console_log_def sleep_def do_fetch_def throw_uncaught_def)

lemma init_fields [simp]:
  "calls init = []" "delays init = []" "logs init = []" "replies init = []" "uncaught init = None"
  by (simp_all add: init_def)

lemma throw_template_isl: "isl (throw_template pre v)"
  by (simp add: throw_template_def split: sum.splits)

lemma try_attempt_not_ok:
  assumes "returns_status r s" and "s < 200 \<or> 299 < s"
  shows "isl (try_attempt r)"
proof (cases r)
  case (Rejected e)
  with assms show ?thesis by (simp add: returns_status_def)
next
  case (Resolved response)
  with assms have "\<not> ok response" by (auto simp: returns_status_def ok_def)
  with Resolved show ?thesis
    by (simp add: try_attempt_def Let_def throw_template_isl split: sum.splits)
qed

lemma retry_loop_break:
  "i < 5 \<Longrightarrow> try_attempt (fetch i) = Inr v \<Longrightarrow>
   retry_loop fetch call i a st = (Proceed v, do_fetch call st)"
  by (subst retry_loop.simps) (simp add: MAX_RETRIES_def)

lemma retry_loop_retry:
  "i < 4 \<Longrightarrow> try_attempt (fetch i) = Inl e \<Longrightarrow>
   retry_loop fetch call i a st =
   retry_loop fetch call (i + 1) a
     (sleep (2 ^ i * 1000)
        (console_log (Console_warn [Str (''[Retry '' @ show_nat (i + 1) @
            ''] API call failed: '' @ e @ ''. Delaying '' @ show_nat (2 ^ i * 1000) @ ''ms...'')])
           (do_fetch call st)))"
  by (subst retry_loop.simps) (simp add: MAX_RETRIES_def Let_def)

lemma retry_loop_give_up:
  "try_attempt (fetch 4) = Inl e \<Longrightarrow>
   retry_loop fetch call 4 a st =
   (Return, res_json 500 (CALL_FAILED_body e)
      (console_log (Console_error [Str ''Gemini API call failed after max retries:'', Str e])
         (do_fetch call st)))"
  by (subst retry_loop.simps) (simp add: MAX_RETRIES_def Let_def)

lemma retry_loop_effects:
  "retry_loop fetch call i a st = (ex, st') \<Longrightarrow>
   uncaught st' = uncaught st \<and>
   (\<exists>n. calls st' = calls st @ replicate n call \<and> (i < 5 \<longrightarrow> 0 < n) \<and> n \<le> 5 - i) \<and>
   (case ex of Return \<Rightarrow> \<exists>e. replies st' = replies st @ [\<lparr>reply_status = 500, reply_body = CALL_FAILED_body e\<rparr>]
             | Proceed v \<Rightarrow> replies st' = replies st)"
proof (induction fetch call i a st arbitrary: ex st' rule: retry_loop.induct)
  case (1 fetch call i a st)
  show ?case
  proof (cases "i < 5")
    case False
    with "1.prems" show ?thesis
      by (subst (asm) retry_loop.simps) (auto simp: MAX_RETRIES_def)
  next
    case lt: True
    show ?thesis
    proof (cases "try_attempt (fetch i)")
      case (Inr v)
      with lt "1.prems" show ?thesis
        by (auto simp: retry_loop_break intro: exI [of _ 1])
    next
      case (Inl e)
      show ?thesis
      proof (cases "i < 4")
        case True
        let ?st3 = "sleep (2 ^ i * 1000)
          (console_log (Console_warn [Str (''[Retry '' @ show_nat (i + 1) @
            ''] API call failed: '' @ e @ ''. Delaying '' @ show_nat (2 ^ i * 1000) @ ''ms...'')])
           (do_fetch call st))"
        from True Inl "1.prems" have step: "retry_loop fetch call (i + 1) a ?st3 = (ex, st')"
          by (simp add: retry_loop_retry)
        have ih: "uncaught st' = uncaught ?st3 \<and>
          (\<exists>n. calls st' = calls ?st3 @ replicate n call \<and> (i + 1 < 5 \<longrightarrow> 0 < n) \<and> n \<le> 5 - (i + 1)) \<and>
          (case ex of Return \<Rightarrow> \<exists>e. replies st' = replies ?st3 @ [\<lparr>reply_status = 500, reply_body = CALL_FAILED_body e\<rparr>]
             | Proceed v \<Rightarrow> replies st' = replies ?st3)"
          using "1.IH" [OF _ refl Inl _ refl refl refl step] lt True
          by (simp add: MAX_RETRIES_def)
        from ih have u: "uncaught st' = uncaught st" by simp
        from ih have r: "(case ex of Return \<Rightarrow> \<exists>e. replies st' = replies st @ [\<lparr>reply_status = 500, reply_body = CALL_FAILED_body e\<rparr>]
             | Proceed v \<Rightarrow> replies st' = replies st)" by (simp split: loop_exit.splits)
        from ih obtain n where n: "calls st' = calls ?st3 @ replicate n call" "n \<le> 5 - (i + 1)"
          by blast
        from n True have "calls st' = calls st @ replicate (Suc n) call \<and> (i < 5 \<longrightarrow> 0 < Suc n) \<and> Suc n \<le> 5 - i"
          by simp
        then have "\<exists>n. calls st' = calls st @ replicate n call \<and> (i < 5 \<longrightarrow> 0 < n) \<and> n \<le> 5 - i"
          by (rule exI)
        with u r show ?thesis by simp
      next
        case False
        with lt have "i = 4" by simp
        with Inl "1.prems" show ?thesis
          by (auto simp: retry_loop_give_up intro: exI [of _ 1])
      qed
    qed
  qed
qed


lemma retry_loop_success:
  assumes "k < 5" and "i \<le> k"
    and "\<And>j. i \<le> j \<Longrightarrow> j < k \<Longrightarrow> isl (try_attempt (fetch j))"
    and "try_attempt (fetch k) = Inr v"
  shows "\<exists>st'. retry_loop fetch call i a st = (Proceed v, st') \<and>
           calls st' = calls st @ replicate (k - i + 1) call \<and>
           delays st' = delays st @ map (\<lambda>j. 2 ^ j * 1000) [i..<k] \<and>
           replies st' = replies st \<and> uncaught st' = uncaught st"
  using assms
proof (induction "k - i" arbitrary: i st)
  case 0
  then have "i = k" by simp
  with "0.prems" show ?case by (simp add: retry_loop_break)
next
  case (Suc d)
  then have lt: "i < k" and i4: "i < 4" by simp_all
  from Suc.prems(3) [of i] lt obtain e where e: "try_attempt (fetch i) = Inl e"
    by (cases "try_attempt (fetch i)") simp_all
  let ?st3 = "sleep (2 ^ i * 1000)
          (console_log (Console_warn [Str (''[Retry '' @ show_nat (i + 1) @
            ''] API call failed: '' @ e @ ''. Delaying '' @ show_nat (2 ^ i * 1000) @ ''ms...'')])
           (do_fetch call st))"
  have "\<exists>st'. retry_loop fetch call (i + 1) a ?st3 = (Proceed v, st') \<and>
           calls st' = calls ?st3 @ replicate (k - (i + 1) + 1) call \<and>
           delays st' = delays ?st3 @ map (\<lambda>j. 2 ^ j * 1000) [i + 1..<k] \<and>
           replies st' = replies ?st3 \<and> uncaught st' = uncaught ?st3"
    using Suc.hyps(2) Suc.prems lt by (intro Suc.hyps(1)) simp_all
  then obtain st' where st': "retry_loop fetch call (i + 1) a ?st3 = (Proceed v, st')"
    "calls st' = calls ?st3 @ replicate (k - (i + 1) + 1) call"
    "delays st' = delays ?st3 @ map (\<lambda>j. 2 ^ j * 1000) [i + 1..<k]"
    "replies st' = replies ?st3" "uncaught st' = uncaught ?st3"
    by blast
  have "retry_loop fetch call i a st = (Proceed v, st')"
    using st'(1) e i4 by (simp add: retry_loop_retry)
  moreover have "calls st' = calls st @ replicate (k - i + 1) call"
  proof -
    from lt have "k - i + 1 = Suc (k - (i + 1) + 1)" by simp
    with st'(2) show ?thesis by simp
  qed
  moreover have "delays st' = delays st @ map (\<lambda>j. 2 ^ j * 1000) [i..<k]"
    using st'(3) lt by (simp add: upt_conv_Cons)
  ultimately show ?case using st'(4,5) by simp
qed

lemma retry_loop_exhausted:
  assumes "i \<le> 4"
    and "\<And>j. i \<le> j \<Longrightarrow> j < 5 \<Longrightarrow> isl (try_attempt (fetch j))"
  shows "\<exists>st' e. retry_loop fetch call i a st = (Return, st') \<and>
           try_attempt (fetch 4) = Inl e \<and>
           calls st' = calls st @ replicate (5 - i) call \<and>
           delays st' = delays st @ map (\<lambda>j. 2 ^ j * 1000) [i..<4] \<and>
           replies st' = replies st @ [\<lparr>reply_status = 500, reply_body = CALL_FAILED_body e\<rparr>] \<and>
           uncaught st' = uncaught st"
  using assms
proof (induction "4 - i" arbitrary: i st)
  case 0
  then have i: "i = 4" by simp
  from "0.prems"(2) [of 4] i obtain e where e: "try_attempt (fetch 4) = Inl e"
    by (cases "try_attempt (fetch 4)") simp_all
  with i show ?case by (simp add: retry_loop_give_up)
next
  case (Suc d)
  then have i4: "i < 4" by simp
  from Suc.prems(2) [of i] i4 obtain e where e: "try_attempt (fetch i) = Inl e"
    by (cases "try_attempt (fetch i)") simp_all
  let ?st3 = "sleep (2 ^ i * 1000)
          (console_log (Console_warn [Str (''[Retry '' @ show_nat (i + 1) @
            ''] API call failed: '' @ e @ ''. Delaying '' @ show_nat (2 ^ i * 1000) @ ''ms...'')])
           (do_fetch call st))"
  have "\<exists>st' e. retry_loop fetch call (i + 1) a ?st3 = (Return, st') \<and>
           try_attempt (fetch 4) = Inl e \<and>
           calls st' = calls ?st3 @ replicate (5 - (i + 1)) call \<and>
           delays st' = delays ?st3 @ map (\<lambda>j. 2 ^ j * 1000) [i + 1..<4] \<and>
           replies st' = replies ?st3 @ [\<lparr>reply_status = 500, reply_body = CALL_FAILED_body e\<rparr>] \<and>
           uncaught st' = uncaught ?st3"
    using Suc.hyps(2) Suc.prems i4 by (intro Suc.hyps(1)) simp_all
  then obtain st' e' where st': "retry_loop fetch call (i + 1) a ?st3 = (Return, st')"
    "try_attempt (fetch 4) = Inl e'"
    "calls st' = calls ?st3 @ replicate (5 - (i + 1)) call"
    "delays st' = delays ?st3 @ map (\<lambda>j. 2 ^ j * 1000) [i + 1..<4]"
    "replies st' = replies ?st3 @ [\<lparr>reply_status = 500, reply_body = CALL_FAILED_body e'\<rparr>]"
    "uncaught st' = uncaught ?st3"
    by blast
  have "retry_loop fetch call i a st = (Return, st')"
    using st'(1) e i4 by (simp add: retry_loop_retry)
  moreover have "calls st' = calls st @ replicate (5 - i) call"
  proof -
    from i4 have "5 - i = Suc (5 - (i + 1))" by simp
    with st'(3) show ?thesis by simp
  qed
  moreover have "delays st' = delays st @ map (\<lambda>j. 2 ^ j * 1000) [i..<4]"
    using st'(4) i4 by (simp add: upt_conv_Cons)
  ultimately show ?case using st'(2,5,6) by simp
qed

lemma getprop_nullish: "nullish v \<Longrightarrow> getprop v k = Undefined"
  by (cases v) simp_all

lemma member_defined: "\<not> nullish v \<Longrightarrow> member v k = Inr (getprop v k)"
  by (simp add: member_def)

lemma member_nullish: "nullish v \<Longrightarrow> member v k = Inl (type_error v k)"
  by (simp add: member_def)

lemma parse_output_text:
  assumes "candidate_text (candidate0 e) = Str t" and "t \<noteq> []"
  shows "parse_output JSON_parse e st = (JSON_parse t, st)"
proof -
  have c: "\<not> nullish (candidate0 e)"
    using assms(1) by (auto simp: candidate_text_def getprop_nullish)
  then have "\<not> nullish e"
    by (auto simp: candidate0_def getprop_nullish)
  with c assms show ?thesis
    by (simp add: parse_output_def member_defined opt_member_getprop Let_def
        candidate0_def [symmetric] candidate_text_def [symmetric])
qed

lemma parse_output_empty:
  assumes "\<not> nullish e" and "\<not> nullish (candidate0 e)"
    and "\<not> truthy (candidate_text (candidate0 e))"
  shows "parse_output JSON_parse e st =
    (throw_template ''Gemini returned empty content. Finish Reason: ''
       (js_or (getprop (candidate0 e) ''finishReason'') (Str ''UNKNOWN'')),
     console_log (Console_error
       [Str ''Gemini returned empty content. Finish Reason:'',
        js_or (getprop (candidate0 e) ''finishReason'') (Str ''UNKNOWN''),
        Str ''Safety:'',
        js_or (getprop (candidate0 e) ''safetyRatings'') (Str ''N/A'')]) st)"
  using assms
  by (simp add: parse_output_def member_defined opt_member_getprop Let_def
      candidate0_def [symmetric] candidate_text_def [symmetric])

lemma parse_output_no_candidate:
  assumes "\<not> nullish e" and "nullish (candidate0 e)"
  shows "parse_output JSON_parse e st =
    (Inl (type_error (candidate0 e) ''content''), st)"
  using assms
  by (simp add: parse_output_def member_defined member_nullish opt_member_getprop Let_def
      candidate0_def [symmetric])

lemma parse_output_no_envelope:
  assumes "nullish e"
  shows "parse_output JSON_parse e st =
    (Inl (type_error e ''candidates''), st)"
  using assms by (simp add: parse_output_def member_nullish)

lemma handler_valid:
  "validate_and_build GEMINI_API_KEY req = Inr call \<Longrightarrow>
   handler JSON_parse GEMINI_API_KEY fetch req =
     (case retry_loop fetch call 0 Null init of
        (Return, st) \<Rightarrow> st
      | (Proceed apiResponse, st) \<Rightarrow> respond JSON_parse apiResponse st)"
  by (simp add: handler_def)

lemma try_attempt_ok:
  "ok r \<Longrightarrow> try_attempt (Resolved r) = json r"
  by (simp add: try_attempt_def)

lemma gaming_request_valid:
  "validate_and_build (Some ''k'') (post_request gaming_body) = Inr gaming_call"
  by (simp add: validate_and_build_def post_request_def gaming_body_def gaming_call_def Let_def)

lemma show_nat_small: "n < 10 \<Longrightarrow> show_nat n = [digit n]"
  by (subst show_nat.simps) simp

lemma show_nat_large: "10 \<le> n \<Longrightarrow> show_nat n = show_nat (n div 10) @ [digit (n mod 10)]"
  by (subst show_nat.simps) simp

lemma show_nat_samples:
  "show_nat 1 = ''1''" "show_nat 2 = ''2''" "show_nat 3 = ''3''" "show_nat 4 = ''4''" "show_nat 5 = ''5''"
  "show_nat 429 = ''429''" "show_nat 403 = ''403''"
  by (simp_all add: show_nat_small show_nat_large digit_def)

lemma try_attempt_error_answer:
  "try_attempt (error_answer 429 t m) =
     Inl (''API returned status 429. Retrying... Message: '' @ (if m = [] then t else m))"
  "try_attempt (error_answer 403 t m) =
     Inl (''Gemini API Failed (Status: 403). Check Key validity, Billing, and API Enablement. Message: '' @
          (if m = [] then t else m))"
  by (simp_all add: try_attempt_def error_answer_def ok_def member_def opt_member_def js_or_def
      throw_template_def show_nat_samples Let_def)

lemma respond_parsed:
  assumes "candidate_text (candidate0 e) = Str t" and "t \<noteq> []" and "JSON_parse t = Inr v"
  shows "respond JSON_parse e st = res_json 200 v st"
  using assms by (simp add: respond_def parse_output_text)

lemma respond_empty:
  assumes "\<not> nullish (candidate0 e)" and "\<not> truthy (candidate_text (candidate0 e))"
    and "to_string (js_or (getprop (candidate0 e) ''finishReason'') (Str ''UNKNOWN'')) = Inr f"
  shows "respond JSON_parse e st =
    res_json 500 (INVALID_JSON_body (''Gemini returned empty content. Finish Reason: '' @ f))
      (console_log (Console_error [Str ''Error parsing or sending final response:'',
          Str (''Gemini returned empty content. Finish Reason: '' @ f)])
        (console_log (Console_error
           [Str ''Gemini returned empty content. Finish Reason:'',
            js_or (getprop (candidate0 e) ''finishReason'') (Str ''UNKNOWN''),
            Str ''Safety:'',
            js_or (getprop (candidate0 e) ''safetyRatings'') (Str ''N/A'')]) st))"
proof -
  from assms(1) have "\<not> nullish e"
    by (auto simp: candidate0_def getprop_nullish)
  with assms show ?thesis
    by (simp add: respond_def parse_output_empty throw_template_def)
qed

lemma handler_success_at:
  assumes "validate_and_build GEMINI_API_KEY req = Inr call"
    and "k < 5"
    and "\<And>j. j < k \<Longrightarrow> isl (try_attempt (fetch j))"
    and "try_attempt (fetch k) = Inr e"
  shows "\<exists>st. handler JSON_parse GEMINI_API_KEY fetch req = respond JSON_parse e st \<and>
              calls st = replicate (k + 1) call \<and>
              delays st = map (\<lambda>j. 2 ^ j * 1000) [0..<k] \<and>
              replies st = [] \<and> uncaught st = None"
proof -
  from retry_loop_success [where fetch = fetch and i = 0 and k = k and v = e and call = call
      and a = Null and st = init, OF assms(2) _ _ assms(4)] assms(3)
  obtain st where "retry_loop fetch call 0 Null init = (Proceed e, st)"
    "calls st = replicate (k + 1) call" "delays st = map (\<lambda>j. 2 ^ j * 1000) [0..<k]"
    "replies st = []" "uncaught st = None"
    by auto
  then have "handler JSON_parse GEMINI_API_KEY fetch req = respond JSON_parse e st \<and>
      calls st = replicate (k + 1) call \<and> delays st = map (\<lambda>j. 2 ^ j * 1000) [0..<k] \<and>
      replies st = [] \<and> uncaught st = None"
    by (simp add: handler_valid [OF assms(1)])
  then show ?thesis by (rule exI)
qed

lemma returns_status_error_answer: "returns_status (error_answer s t m) s"
  by (simp add: returns_status_def error_answer_def)

lemma text_envelope_text: "candidate_text (candidate0 (text_envelope t)) = Str t"
  by (simp add: candidate_text_def candidate0_def text_envelope_def)

lemma ok_answer_ok:
  "ok \<lparr>status = 200, statusText = ''OK'', json = Inr e\<rparr>"
  by (simp add: ok_def)

lemma validate_ok:
  assumes "req_method req = ''POST''" and "GEMINI_API_KEY = Some key" and "key \<noteq> []"
    and "body req = Inr b" and "truthy (getprop b ''prompt'')"
    and "to_string (getprop b ''prompt'') = Inr p"
    and "to_string (getprop b ''hardwareData'') = Inr h"
  shows "validate_and_build GEMINI_API_KEY req =
    Inr \<lparr>url = API_URL @ key, http_method = ''POST'',
         headers = [(''Content-Type'', ''application/json'')],
         payload = build_payload (userQuery_label @ p @ userQuery_table @ h)
                     (systemPrompt_head @ p @ systemPrompt_tail)\<rparr>"
proof -
  from assms(5) have "\<not> nullish b"
    by (auto simp: getprop_nullish)
  with assms show ?thesis
    by (simp add: validate_and_build_def Let_def)
qed

lemma handler_exhausted:
  assumes "validate_and_build GEMINI_API_KEY req = Inr call"
    and "\<And>j. j < 5 \<Longrightarrow> isl (try_attempt (fetch j))"
  shows "\<exists>e. try_attempt (fetch 4) = Inl e \<and>
           calls (handler JSON_parse GEMINI_API_KEY fetch req) = replicate 5 call \<and>
           delays (handler JSON_parse GEMINI_API_KEY fetch req) = [1000, 2000, 4000, 8000] \<and>
           replies (handler JSON_parse GEMINI_API_KEY fetch req) =
             [\<lparr>reply_status = 500, reply_body = CALL_FAILED_body e\<rparr>] \<and>
           uncaught (handler JSON_parse GEMINI_API_KEY fetch req) = None"
proof -
  from retry_loop_exhausted [where fetch = fetch and i = 0 and call = call and a = Null
      and st = init] assms(2)
  obtain st' e where st': "retry_loop fetch call 0 Null init = (Return, st')"
    "try_attempt (fetch 4) = Inl e" "calls st' = replicate 5 call"
    "delays st' = map (\<lambda>j. 2 ^ j * 1000) [0..<4]"
    "replies st' = [\<lparr>reply_status = 500, reply_body = CALL_FAILED_body e\<rparr>]"
    "uncaught st' = None"
    by auto
  have "[0..<4] = [0, 1, 2, 3]"
    by (simp add: upt_conv_Cons)
  with st' have "try_attempt (fetch 4) = Inl e \<and>
           calls (handler JSON_parse GEMINI_API_KEY fetch req) = replicate 5 call \<and>
           delays (handler JSON_parse GEMINI_API_KEY fetch req) = [1000, 2000, 4000, 8000] \<and>
           replies (handler JSON_parse GEMINI_API_KEY fetch req) =
             [\<lparr>reply_status = 500, reply_body = CALL_FAILED_body e\<rparr>] \<and>
           uncaught (handler JSON_parse GEMINI_API_KEY fetch req) = None"
    by (simp add: handler_valid [OF assms(1)])
  then show ?thesis by (rule exI)
qed

lemma try_attempt_ok_answer: "try_attempt (ok_answer e) = Inr e"
  by (simp add: ok_answer_def try_attempt_ok ok_def)

lemma convertibleE: "convertible v \<Longrightarrow> \<exists>s. to_string v = Inr s"
  by (cases "to_string v") (simp_all add: convertible_def)

lemma blocked_envelope_candidate:
  "candidate0 (blocked_envelope s) =
     Obj [(''content'', Obj [(''parts'', Arr []), (''role'', Str ''model'')]),
          (''finishReason'', Str ''SAFETY''), (''safetyRatings'', s)]"
  by (simp add: candidate0_def blocked_envelope_def)

lemma blocked_envelope_empty:
  "\<not> nullish (candidate0 (blocked_envelope s))"
  "\<not> truthy (candidate_text (candidate0 (blocked_envelope s)))"
  "to_string (js_or (getprop (candidate0 (blocked_envelope s)) ''finishReason'') (Str ''UNKNOWN'')) =
     Inr ''SAFETY''"
  by (simp_all add: blocked_envelope_candidate candidate_text_def js_or_def)

lemma always_ok_0:
  "always_ok e 0 = Resolved \<lparr>status = 200, statusText = ''OK'', json = Inr e\<rparr>"
  by (simp add: always_ok_def ok_answer_def)

lemma no_api_key_fields:
  "calls no_api_key = []" "uncaught no_api_key = None"
  "replies no_api_key =
     [\<lparr>reply_status = 500,
       reply_body = Obj [(''message'', Str MSG_NO_KEY), (''errorCode'', Str ''NO_API_KEY_CONFIGURED'')]\<rparr>]"
  by (simp_all add: no_api_key_def)

lemma handler_invalid:
  "validate_and_build GEMINI_API_KEY req = Inl st \<Longrightarrow> handler JSON_parse GEMINI_API_KEY fetch req = st"
  by (simp add: handler_def)

lemma parse_output_state:
  "calls (snd (parse_output JSON_parse e st)) = calls st"
  "replies (snd (parse_output JSON_parse e st)) = replies st"
  "uncaught (snd (parse_output JSON_parse e st)) = uncaught st"
  by (simp_all add: parse_output_def Let_def split: sum.splits)

lemma respond_effects:
  "calls (respond JSON_parse e st) = calls st"
  "uncaught (respond JSON_parse e st) = uncaught st"
  "\<exists>r. replies (respond JSON_parse e st) = replies st @ [r] \<and>
       (reply_status r = 500 \<or>
        reply_status r = 200 \<and> (\<exists>t. JSON_parse t = Inr (reply_body r)))"
proof -
  obtain res st1 where p: "parse_output JSON_parse e st = (res, st1)"
    by (cases "parse_output JSON_parse e st")
  with parse_output_state [of JSON_parse e st]
  have st1: "calls st1 = calls st" "replies st1 = replies st" "uncaught st1 = uncaught st"
    by simp_all
  from p st1 show "calls (respond JSON_parse e st) = calls st"
    "uncaught (respond JSON_parse e st) = uncaught st"
    by (simp_all add: respond_def split: sum.splits)
  show "\<exists>r. replies (respond JSON_parse e st) = replies st @ [r] \<and>
       (reply_status r = 500 \<or>
        reply_status r = 200 \<and> (\<exists>t. JSON_parse t = Inr (reply_body r)))"
  proof (cases res)
    case (Inl m)
    with p st1 show ?thesis by (simp add: respond_def)
  next
    case (Inr v)
    with p have "\<exists>t. JSON_parse t = Inr v"
      by (auto simp: parse_output_def Let_def throw_template_def split: sum.splits if_splits)
    with Inr p st1 show ?thesis by (simp add: respond_def)
  qed
qed

lemma validate_stops:
  assumes "validate_and_build GEMINI_API_KEY req = Inl st"
  shows "length (replies st) = (if uncaught st = None then 1 else 0) \<and> calls st = []"
  using assms
  by (auto simp: validate_and_build_def Let_def no_api_key_fields
      split: if_splits option.splits sum.splits)

lemma one_response_unless_thrown:
  "length (replies (handler JSON_parse GEMINI_API_KEY fetch req)) =
     (if uncaught (handler JSON_parse GEMINI_API_KEY fetch req) = None then 1 else 0)"
proof (cases "validate_and_build GEMINI_API_KEY req")
  case (Inl st)
  then show ?thesis
    by (simp add: handler_invalid validate_stops)
next
  case (Inr call)
  obtain ex st where loop: "retry_loop fetch call 0 Null init = (ex, st)"
    by (cases "retry_loop fetch call 0 Null init")
  from retry_loop_effects [OF loop]
  have u: "uncaught st = None"
    and r: "(case ex of
               Return \<Rightarrow> \<exists>e. replies st = [\<lparr>reply_status = 500, reply_body = CALL_FAILED_body e\<rparr>]
             | Proceed v \<Rightarrow> replies st = [])"
    by (simp_all split: loop_exit.splits)
  show ?thesis
  proof (cases ex)
    case Return
    with loop u r show ?thesis
      by (auto simp: handler_valid [OF Inr])
  next
    case (Proceed v)
    with r have "replies st = []" by simp
    with respond_effects [of JSON_parse v st] u Proceed loop show ?thesis
      by (auto simp: handler_valid [OF Inr])
  qed
qed

lemma user_content_built:
  "user_content \<lparr>url = u, http_method = m, headers = hs, payload = build_payload q s\<rparr> = Str q"
  by (simp add: user_content_def build_payload_def)

lemma handler_calls:
  assumes "validate_and_build GEMINI_API_KEY req = Inr call"
  shows "\<exists>n. calls (handler JSON_parse GEMINI_API_KEY fetch req) = replicate n call \<and> 0 < n \<and> n \<le> 5"
proof -
  obtain ex st where loop: "retry_loop fetch call 0 Null init = (ex, st)"
    by (cases "retry_loop fetch call 0 Null init")
  from retry_loop_effects [OF loop]
  obtain n where n: "calls st = replicate n call" "0 < n" "n \<le> 5"
    by auto
  have "calls (handler JSON_parse GEMINI_API_KEY fetch req) = calls st"
    using loop by (cases ex) (simp_all add: handler_valid [OF assms] respond_effects)
  with n have "calls (handler JSON_parse GEMINI_API_KEY fetch req) = replicate n call \<and> 0 < n \<and> n \<le> 5"
    by simp
  then show ?thesis by (rule exI)
qed

lemma respond_thrown:
  assumes "parse_output JSON_parse e st = (Inl m, st)"
  shows "replies (respond JSON_parse e st) =
           replies st @ [\<lparr>reply_status = 500, reply_body = INVALID_JSON_body m\<rparr>]"
    and "logs (respond JSON_parse e st) =
           logs st @ [Console_error [Str ''Error parsing or sending final response:'', Str m]]"
  using assms by (simp_all add: respond_def)

section \<open>The claims\<close>

text \<open>
  C1. The claim is that a 403 (or 400) on the first attempt ends the invocation after one
  call. The source throws its Error for these statuses inside the \<open>try\<close> of the loop, and
  the \<open>catch\<close> of the loop treats every error alike: it sleeps and goes on while attempts
  remain. Evaluated against a provider that answers 403 every time, the handler makes five
  calls and sleeps four times before answering 500; against one that answers 403 once and
  then succeeds, it makes a second call after a second's sleep and answers 200.
\<close>

theorem forbidden_status_is_retried:
  "calls (handler parse_sample (Some ''k'') always_forbidden (post_request gaming_body)) =
     replicate 5 gaming_call \<and>
   delays (handler parse_sample (Some ''k'') always_forbidden (post_request gaming_body)) =
     [1000, 2000, 4000, 8000] \<and>
   replies (handler parse_sample (Some ''k'') always_forbidden (post_request gaming_body)) =
     [\<lparr>reply_status = 500,
       reply_body = Obj [(''message'', Str MSG_CALL_FAILED),
         (''errorDetails'', Str (''Gemini API Failed (Status: 403). Check Key validity, '' @
            ''Billing, and API Enablement. Message: API key not valid''))]\<rparr>] \<and>
   calls (handler parse_sample (Some ''k'') forbidden_then_ok (post_request gaming_body)) =
     [gaming_call, gaming_call] \<and>
   delays (handler parse_sample (Some ''k'') forbidden_then_ok (post_request gaming_body)) = [1000] \<and>
   replies (handler parse_sample (Some ''k'') forbidden_then_ok (post_request gaming_body)) =
     [\<lparr>reply_status = 200, reply_body = Arr []\<rparr>]"
proof -
  have "\<And>j. j < 5 \<Longrightarrow> isl (try_attempt (always_forbidden j))"
    by (simp add: always_forbidden_def try_attempt_error_answer)
  from handler_exhausted [where fetch = always_forbidden and JSON_parse = parse_sample,
      OF gaming_request_valid this]
  have first: "calls (handler parse_sample (Some ''k'') always_forbidden (post_request gaming_body)) =
     replicate 5 gaming_call \<and>
   delays (handler parse_sample (Some ''k'') always_forbidden (post_request gaming_body)) =
     [1000, 2000, 4000, 8000] \<and>
   replies (handler parse_sample (Some ''k'') always_forbidden (post_request gaming_body)) =
     [\<lparr>reply_status = 500,
       reply_body = Obj [(''message'', Str MSG_CALL_FAILED),
         (''errorDetails'', Str (''Gemini API Failed (Status: 403). Check Key validity, '' @
            ''Billing, and API Enablement. Message: API key not valid''))]\<rparr>]"
    by (simp add: always_forbidden_def try_attempt_error_answer CALL_FAILED_body_def)
  have "\<And>j. j < 1 \<Longrightarrow> isl (try_attempt (forbidden_then_ok j))"
    by (simp add: forbidden_then_ok_def try_attempt_error_answer)
  moreover have "try_attempt (forbidden_then_ok 1) = Inr (text_envelope ''[]'')"
    by (simp add: forbidden_then_ok_def try_attempt_ok_answer)
  ultimately obtain st where
    st: "handler parse_sample (Some ''k'') forbidden_then_ok (post_request gaming_body) =
           respond parse_sample (text_envelope ''[]'') st"
      "calls st = replicate (1 + 1) gaming_call" "delays st = map (\<lambda>j. 2 ^ j * 1000) [0..<1]"
      "replies st = []"
    using handler_success_at [where fetch = forbidden_then_ok and k = 1
        and JSON_parse = parse_sample, OF gaming_request_valid]
    by auto
  have "respond parse_sample (text_envelope ''[]'') st = res_json 200 (Arr []) st"
    by (rule respond_parsed [OF text_envelope_text]) (simp_all add: parse_sample_def)
  with st have "calls (handler parse_sample (Some ''k'') forbidden_then_ok (post_request gaming_body)) =
     [gaming_call, gaming_call] \<and>
   delays (handler parse_sample (Some ''k'') forbidden_then_ok (post_request gaming_body)) = [1000] \<and>
   replies (handler parse_sample (Some ''k'') forbidden_then_ok (post_request gaming_body)) =
     [\<lparr>reply_status = 200, reply_body = Arr []\<rparr>]"
    by simp
  with first show ?thesis by simp
qed

text \<open>
  C2. When the provider answers with status 429 on every attempt, the handler makes exactly
  five outbound calls and then answers 500; the \<open>errorDetails\<close> of that answer is the
  message of the error thrown on the fifth attempt (index 4).
\<close>

theorem rate_limit_exhausts_budget:
  assumes "validate_and_build GEMINI_API_KEY req = Inr call"
    and "\<And>i. i < MAX_RETRIES \<Longrightarrow> returns_status (fetch i) 429"
  shows "calls (handler JSON_parse GEMINI_API_KEY fetch req) = replicate 5 call \<and>
         (\<exists>e. try_attempt (fetch 4) = Inl e \<and>
              replies (handler JSON_parse GEMINI_API_KEY fetch req) =
                [\<lparr>reply_status = 500,
                  reply_body = Obj [(''message'', Str MSG_CALL_FAILED), (''errorDetails'', Str e)]\<rparr>])"
proof -
  have "\<And>j. 0 \<le> j \<Longrightarrow> j < 5 \<Longrightarrow> isl (try_attempt (fetch j))"
    using assms(2) by (intro try_attempt_not_ok [where s = 429]) (simp_all add: MAX_RETRIES_def)
  from retry_loop_exhausted [where fetch = fetch and i = 0 and call = call and a = Null and st = init, OF _ this]
  obtain st' e where "retry_loop fetch call 0 Null init = (Return, st')"
    "try_attempt (fetch 4) = Inl e" "calls st' = replicate 5 call"
    "replies st' = [\<lparr>reply_status = 500, reply_body = CALL_FAILED_body e\<rparr>]"
    by auto
  then show ?thesis
    by (simp add: handler_valid [OF assms(1)] CALL_FAILED_body_def)
qed

theorem rate_limit_exhausts_budget_witness:
  "length (calls (handler parse_sample (Some ''k'') always_limited (post_request gaming_body))) = 5 \<and>
   replies (handler parse_sample (Some ''k'') always_limited (post_request gaming_body)) =
     [\<lparr>reply_status = 500,
       reply_body = Obj [(''message'', Str MSG_CALL_FAILED),
         (''errorDetails'', Str ''API returned status 429. Retrying... Message: quota exceeded, call 5'')]\<rparr>]"
proof -
  have "\<And>i. i < MAX_RETRIES \<Longrightarrow> returns_status (always_limited i) 429"
    by (simp add: always_limited_def error_answer_def returns_status_def)
  from rate_limit_exhausts_budget [where fetch = always_limited and JSON_parse = parse_sample, OF gaming_request_valid this]
  show ?thesis
    by (simp add: always_limited_def try_attempt_error_answer show_nat_samples)
qed

text \<open>
  C3. When the provider answers 429 on the first four attempts and, on the fifth, a
  successful response whose \<open>candidates[0].content.parts[0].text\<close> is a JSON text \<open>t\<close>
  (never empty) that parses to \<open>v\<close>, the handler makes exactly five calls, sleeps 1000,
  2000, 4000 and 8000 milliseconds between them (15 units of 1000 in all), and answers 200
  with \<open>v\<close>.
\<close>

theorem backoff_then_success:
  assumes "validate_and_build GEMINI_API_KEY req = Inr call"
    and "\<And>i. i < 4 \<Longrightarrow> returns_status (fetch i) 429"
    and "fetch 4 = Resolved r" and "ok r" and "json r = Inr e"
    and "candidate_text (candidate0 e) = Str t" and "t \<noteq> []" and "JSON_parse t = Inr v"
  shows "calls (handler JSON_parse GEMINI_API_KEY fetch req) = replicate 5 call \<and>
         delays (handler JSON_parse GEMINI_API_KEY fetch req) = [1000, 2000, 4000, 8000] \<and>
         sum_list (delays (handler JSON_parse GEMINI_API_KEY fetch req)) = 15 * 1000 \<and>
         replies (handler JSON_parse GEMINI_API_KEY fetch req) =
           [\<lparr>reply_status = 200, reply_body = v\<rparr>] \<and>
         uncaught (handler JSON_parse GEMINI_API_KEY fetch req) = None"
proof -
  have fails: "\<And>j. j < 4 \<Longrightarrow> isl (try_attempt (fetch j))"
    using assms(2) by (intro try_attempt_not_ok [where s = 429]) simp_all
  have "try_attempt (fetch 4) = Inr e"
    using assms(3-5) by (simp add: try_attempt_ok)
  from handler_success_at [where fetch = fetch and k = 4 and JSON_parse = JSON_parse, OF assms(1) _ fails this]
  obtain st where st: "handler JSON_parse GEMINI_API_KEY fetch req = respond JSON_parse e st"
    "calls st = replicate (4 + 1) call" "delays st = map (\<lambda>j. 2 ^ j * 1000) [0..<4]"
    "replies st = []" "uncaught st = None"
    by auto
  have "[0..<4] = [0, 1, 2, 3]"
    by (simp add: upt_conv_Cons)
  with st show ?thesis
    by (simp add: respond_parsed [where JSON_parse = JSON_parse, OF assms(6-8)])
qed

theorem backoff_then_success_witness:
  "length (calls (handler parse_sample (Some ''k'') limited_then_ok (post_request gaming_body))) = 5 \<and>
   delays (handler parse_sample (Some ''k'') limited_then_ok (post_request gaming_body)) =
     [1000, 2000, 4000, 8000] \<and>
   replies (handler parse_sample (Some ''k'') limited_then_ok (post_request gaming_body)) =
     [\<lparr>reply_status = 200, reply_body = Arr []\<rparr>]"
proof -
  have a: "\<And>i. i < 4 \<Longrightarrow> returns_status (limited_then_ok i) 429"
    by (simp add: limited_then_ok_def returns_status_error_answer)
  have b: "limited_then_ok 4 =
      Resolved \<lparr>status = 200, statusText = ''OK'', json = Inr (text_envelope ''[]'')\<rparr>"
    by (simp add: limited_then_ok_def ok_answer_def)
  have c: "parse_sample ''[]'' = Inr (Arr [])"
    by (simp add: parse_sample_def)
  from backoff_then_success [where fetch = limited_then_ok and JSON_parse = parse_sample,
      OF gaming_request_valid a b ok_answer_ok _ text_envelope_text _ c]
  show ?thesis by simp
qed

text \<open>
  C4, as amended. A POST request that arrives while \<open>GEMINI_API_KEY\<close> is unset or empty is
  answered 500 with the code \<open>NO_API_KEY_CONFIGURED\<close> and no outbound call, whatever its
  body is, parsable or not: the key is checked before the body is read.
\<close>

theorem missing_key_rejected_before_body:
  assumes "req_method req = ''POST''"
    and "GEMINI_API_KEY = None \<or> GEMINI_API_KEY = Some []"
  shows "calls (handler JSON_parse GEMINI_API_KEY fetch req) = [] \<and>
         replies (handler JSON_parse GEMINI_API_KEY fetch req) =
           [\<lparr>reply_status = 500,
             reply_body = Obj [(''message'', Str MSG_NO_KEY),
                               (''errorCode'', Str ''NO_API_KEY_CONFIGURED'')]\<rparr>]"
proof -
  from assms have "validate_and_build GEMINI_API_KEY req = Inl no_api_key"
    by (auto simp: validate_and_build_def)
  then show ?thesis
    by (simp add: handler_invalid no_api_key_fields)
qed

theorem missing_key_rejected_before_body_witness:
  "calls (handler parse_sample None always_limited unparsable_request) = [] \<and>
   replies (handler parse_sample None always_limited unparsable_request) =
     [\<lparr>reply_status = 500,
       reply_body = Obj [(''message'', Str MSG_NO_KEY),
                         (''errorCode'', Str ''NO_API_KEY_CONFIGURED'')]\<rparr>]"
  using missing_key_rejected_before_body [where req = unparsable_request and GEMINI_API_KEY = None
      and JSON_parse = parse_sample and fetch = always_limited]
  by (simp add: unparsable_request_def)

text \<open>
  C4 as stated speaks of every request. The method is checked before the key: a GET
  request without a key is answered 405.
\<close>

theorem missing_key_get_request:
  "replies (handler parse_sample None always_limited get_request) =
     [\<lparr>reply_status = 405,
       reply_body = Obj [(''message'', Str ''Method Not Allowed, please use POST.'')]\<rparr>]"
  by (simp add: handler_def validate_and_build_def get_request_def)

text \<open>
  C5, as amended. With a key configured, a POST request whose body cannot be parsed, or
  whose \<open>prompt\<close> is missing, empty or otherwise falsy, is answered 400 with no outbound
  call.
\<close>

theorem missing_prompt_rejected:
  assumes "req_method req = ''POST''" and "GEMINI_API_KEY = Some key" and "key \<noteq> []"
    and "(case body req of Inl err \<Rightarrow> True | Inr b \<Rightarrow> \<not> truthy (getprop b ''prompt''))"
  shows "calls (handler JSON_parse GEMINI_API_KEY fetch req) = [] \<and>
         (\<exists>m. replies (handler JSON_parse GEMINI_API_KEY fetch req) =
                [\<lparr>reply_status = 400, reply_body = Obj [(''message'', Str m)]\<rparr>])"
proof -
  from assms have "\<exists>m. validate_and_build GEMINI_API_KEY req =
      Inl (res_json 400 (Obj [(''message'', Str m)]) init)"
    by (auto simp: validate_and_build_def split: sum.splits)
  then obtain m where "handler JSON_parse GEMINI_API_KEY fetch req =
      res_json 400 (Obj [(''message'', Str m)]) init"
    by (auto simp: handler_invalid)
  then show ?thesis by simp
qed

theorem missing_prompt_rejected_witness:
  "calls (handler parse_sample (Some ''k'') always_limited (post_request (Obj []))) = [] \<and>
   map reply_status (replies (handler parse_sample (Some ''k'') always_limited (post_request (Obj [])))) = [400] \<and>
   calls (handler parse_sample (Some ''k'') always_limited (post_request empty_prompt_body)) = [] \<and>
   map reply_status (replies (handler parse_sample (Some ''k'') always_limited (post_request empty_prompt_body))) = [400] \<and>
   calls (handler parse_sample (Some ''k'') always_limited unparsable_request) = [] \<and>
   map reply_status (replies (handler parse_sample (Some ''k'') always_limited unparsable_request)) = [400]"
  using missing_prompt_rejected [where req = "post_request (Obj [])" and GEMINI_API_KEY = "Some ''k''"
      and key = "''k''" and JSON_parse = parse_sample and fetch = always_limited]
    missing_prompt_rejected [where req = "post_request empty_prompt_body" and GEMINI_API_KEY = "Some ''k''"
      and key = "''k''" and JSON_parse = parse_sample and fetch = always_limited]
    missing_prompt_rejected [where req = unparsable_request and GEMINI_API_KEY = "Some ''k''"
      and key = "''k''" and JSON_parse = parse_sample and fetch = always_limited]
  by (auto simp: post_request_def empty_prompt_body_def unparsable_request_def)

text \<open>
  C5 as stated speaks of every POST request. Without a key the answer to a POST request
  that lacks its \<open>prompt\<close> is the 500 of the key check, which comes first.
\<close>

theorem missing_prompt_without_key:
  "replies (handler parse_sample None always_limited (post_request (Obj []))) =
     [\<lparr>reply_status = 500,
       reply_body = Obj [(''message'', Str MSG_NO_KEY),
                         (''errorCode'', Str ''NO_API_KEY_CONFIGURED'')]\<rparr>]"
  by (simp add: handler_def validate_and_build_def post_request_def no_api_key_fields)

text \<open>
  C6. A POST request with a non-empty string \<open>prompt\<close> (and a \<open>hardwareData\<close> that prints),
  a provider whose call succeeds at some attempt \<open>k\<close> within the budget, and a JSON text
  \<open>t\<close> in \<open>candidates[0].content.parts[0].text\<close> that parses to \<open>v\<close>: the handler's only
  response is 200 with body \<open>v\<close> itself. Nothing is assumed of \<open>v\<close>: it is not checked
  against the schema.
\<close>

theorem success_returns_parsed_json:
  assumes "req_method req = ''POST''" and "GEMINI_API_KEY = Some key" and "key \<noteq> []"
    and "body req = Inr b" and "getprop b ''prompt'' = Str p" and "p \<noteq> []"
    and "convertible (getprop b ''hardwareData'')"
    and "k < MAX_RETRIES" and "\<And>j. j < k \<Longrightarrow> isl (try_attempt (fetch j))"
    and "fetch k = Resolved r" and "ok r" and "json r = Inr e"
    and "candidate_text (candidate0 e) = Str t" and "t \<noteq> []" and "JSON_parse t = Inr v"
  shows "replies (handler JSON_parse GEMINI_API_KEY fetch req) =
           [\<lparr>reply_status = 200, reply_body = v\<rparr>] \<and>
         uncaught (handler JSON_parse GEMINI_API_KEY fetch req) = None"
proof -
  from assms(7) obtain h where h: "to_string (getprop b ''hardwareData'') = Inr h"
    by (auto dest: convertibleE)
  have valid: "validate_and_build GEMINI_API_KEY req =
    Inr \<lparr>url = API_URL @ key, http_method = ''POST'',
         headers = [(''Content-Type'', ''application/json'')],
         payload = build_payload (userQuery_label @ p @ userQuery_table @ h)
                     (systemPrompt_head @ p @ systemPrompt_tail)\<rparr>"
    using assms(1-6) h by (intro validate_ok) simp_all
  have "try_attempt (fetch k) = Inr e"
    using assms(10-12) by (simp add: try_attempt_ok)
  from handler_success_at [where fetch = fetch and k = k and JSON_parse = JSON_parse,
      OF valid _ assms(9) this] assms(8)
  obtain st where "handler JSON_parse GEMINI_API_KEY fetch req = respond JSON_parse e st"
    "replies st = []" "uncaught st = None"
    by (auto simp: MAX_RETRIES_def)
  then show ?thesis
    by (simp add: respond_parsed [where JSON_parse = JSON_parse, OF assms(13-15)])
qed

theorem success_returns_parsed_json_witness:
  "replies (handler parse_sample (Some ''k'') (always_ok (text_envelope ''[{}]''))
      (post_request bare_body)) = [\<lparr>reply_status = 200, reply_body = Arr [Obj []]\<rparr>] \<and>
   uncaught (handler parse_sample (Some ''k'') (always_ok (text_envelope ''[{}]''))
      (post_request bare_body)) = None"
proof -
  have a: "req_method (post_request bare_body) = ''POST''" "body (post_request bare_body) = Inr bare_body"
    by (simp_all add: post_request_def)
  have b: "getprop bare_body ''prompt'' = Str ''gaming pc''"
    "convertible (getprop bare_body ''hardwareData'')"
    by (simp_all add: bare_body_def convertible_def)
  have c: "always_ok (text_envelope ''[{}]'') 0 =
      Resolved \<lparr>status = 200, statusText = ''OK'', json = Inr (text_envelope ''[{}]'')\<rparr>"
    by (simp add: always_ok_def ok_answer_def)
  have d: "parse_sample ''[{}]'' = Inr (Arr [Obj []])"
    by (simp add: parse_sample_def)
  from success_returns_parsed_json [where fetch = "always_ok (text_envelope ''[{}]'')"
      and JSON_parse = parse_sample and k = 0 and key = "''k''",
      OF a(1) refl _ a(2) b(1) _ b(2) _ _ c ok_answer_ok _ text_envelope_text _ d]
  show ?thesis by (simp add: MAX_RETRIES_def)
qed

text \<open>
  C7, as amended. When the call succeeds at attempt \<open>k\<close> and \<open>candidates[0]\<close> is there but
  its \<open>content.parts[0].text\<close> is missing or empty, the handler has made \<open>k + 1\<close> calls
  and makes no more, and answers 500 with the finish reason (\<open>UNKNOWN\<close> when the candidate
  has none) in \<open>errorDetails\<close>, the finish reason being a value that prints, as every
  string does. The safety ratings go to the console line and nowhere else.
\<close>

theorem empty_content_reports_finish_reason:
  assumes "validate_and_build GEMINI_API_KEY req = Inr call"
    and "k < MAX_RETRIES" and "\<And>j. j < k \<Longrightarrow> isl (try_attempt (fetch j))"
    and "fetch k = Resolved r" and "ok r" and "json r = Inr e"
    and "\<not> nullish (candidate0 e)" and "\<not> truthy (candidate_text (candidate0 e))"
    and "to_string (js_or (getprop (candidate0 e) ''finishReason'') (Str ''UNKNOWN'')) = Inr f"
  shows "calls (handler JSON_parse GEMINI_API_KEY fetch req) = replicate (k + 1) call \<and>
         replies (handler JSON_parse GEMINI_API_KEY fetch req) =
           [\<lparr>reply_status = 500,
             reply_body = Obj [(''message'', Str MSG_INVALID_JSON),
               (''errorDetails'', Str (''Gemini returned empty content. Finish Reason: '' @ f))]\<rparr>] \<and>
         Console_error [Str ''Gemini returned empty content. Finish Reason:'',
             js_or (getprop (candidate0 e) ''finishReason'') (Str ''UNKNOWN''),
             Str ''Safety:'',
             js_or (getprop (candidate0 e) ''safetyRatings'') (Str ''N/A'')]
           \<in> set (logs (handler JSON_parse GEMINI_API_KEY fetch req))"
proof -
  have "try_attempt (fetch k) = Inr e"
    using assms(4-6) by (simp add: try_attempt_ok)
  from handler_success_at [where fetch = fetch and k = k and JSON_parse = JSON_parse,
      OF assms(1) _ assms(3) this] assms(2)
  obtain st where "handler JSON_parse GEMINI_API_KEY fetch req = respond JSON_parse e st"
    "calls st = replicate (k + 1) call" "replies st = []"
    by (auto simp: MAX_RETRIES_def)
  then show ?thesis
    by (simp add: respond_empty [where JSON_parse = JSON_parse, OF assms(7-9)]
        INVALID_JSON_body_def)
qed

theorem empty_content_reports_finish_reason_witness:
  "calls (handler parse_sample (Some ''k'') (always_ok (blocked_envelope sample_ratings))
      (post_request gaming_body)) = [gaming_call] \<and>
   replies (handler parse_sample (Some ''k'') (always_ok (blocked_envelope sample_ratings))
      (post_request gaming_body)) =
     [\<lparr>reply_status = 500,
       reply_body = Obj [(''message'', Str MSG_INVALID_JSON),
         (''errorDetails'', Str ''Gemini returned empty content. Finish Reason: SAFETY'')]\<rparr>] \<and>
   Console_error [Str ''Gemini returned empty content. Finish Reason:'', Str ''SAFETY'',
      Str ''Safety:'', sample_ratings]
     \<in> set (logs (handler parse_sample (Some ''k'') (always_ok (blocked_envelope sample_ratings))
      (post_request gaming_body)))"
proof -
  from empty_content_reports_finish_reason [where fetch = "always_ok (blocked_envelope sample_ratings)"
      and JSON_parse = parse_sample and k = 0 and e = "blocked_envelope sample_ratings",
      OF gaming_request_valid _ _ always_ok_0 ok_answer_ok _ blocked_envelope_empty]
  show ?thesis
    by (simp add: MAX_RETRIES_def blocked_envelope_candidate js_or_def sample_ratings_def)
qed

text \<open>
  C7 as stated has the response report the safety signal too. Two envelopes that differ
  in their safety ratings only get the same response, which holds the finish reason alone.
\<close>

theorem safety_signal_not_in_response:
  "replies (handler parse_sample (Some ''k'') (always_ok (blocked_envelope sample_ratings))
      (post_request gaming_body)) =
     [\<lparr>reply_status = 500,
       reply_body = Obj [(''message'', Str MSG_INVALID_JSON),
         (''errorDetails'', Str ''Gemini returned empty content. Finish Reason: SAFETY'')]\<rparr>] \<and>
   replies (handler parse_sample (Some ''k'') (always_ok (blocked_envelope other_ratings))
      (post_request gaming_body)) =
   replies (handler parse_sample (Some ''k'') (always_ok (blocked_envelope sample_ratings))
      (post_request gaming_body)) \<and>
   sample_ratings \<noteq> other_ratings"
proof -
  have "\<And>s. replies (handler parse_sample (Some ''k'') (always_ok (blocked_envelope s))
      (post_request gaming_body)) =
     [\<lparr>reply_status = 500,
       reply_body = Obj [(''message'', Str MSG_INVALID_JSON),
         (''errorDetails'', Str ''Gemini returned empty content. Finish Reason: SAFETY'')]\<rparr>]"
  proof -
    fix s
    have "try_attempt (always_ok (blocked_envelope s) 0) = Inr (blocked_envelope s)"
      by (simp add: always_ok_def try_attempt_ok_answer)
    from handler_success_at [where fetch = "always_ok (blocked_envelope s)" and k = 0
        and JSON_parse = parse_sample, OF gaming_request_valid _ _ this]
    obtain st where "handler parse_sample (Some ''k'') (always_ok (blocked_envelope s))
        (post_request gaming_body) = respond parse_sample (blocked_envelope s) st"
      "replies st = []"
      by auto
    then show "replies (handler parse_sample (Some ''k'') (always_ok (blocked_envelope s))
      (post_request gaming_body)) =
     [\<lparr>reply_status = 500,
       reply_body = Obj [(''message'', Str MSG_INVALID_JSON),
         (''errorDetails'', Str ''Gemini returned empty content. Finish Reason: SAFETY'')]\<rparr>]"
      by (simp add: respond_empty [where JSON_parse = parse_sample, OF blocked_envelope_empty]
          INVALID_JSON_body_def)
  qed
  then show ?thesis
    by (simp add: sample_ratings_def other_ratings_def)
qed

text \<open>
  C8. The claim is that every invocation ends in exactly one response. The template
  literals of lines 63 and 71 are outside every \<open>try\<close>, and they convert \<open>prompt\<close> and
  \<open>hardwareData\<close> to strings: for the body \<open>{prompt: {toString: 1}}\<close> the first of them
  throws a TypeError, and the handler ends without a call and without a response, its
  promise rejected. On every other path a response is written: a body that cannot be
  destructured and a falsy \<open>prompt\<close> are answered 400, and the two later stages catch
  what they throw (\<open>one_response_unless_thrown\<close>).
\<close>

theorem odd_prompt_no_response:
  "replies (handler parse_sample (Some ''k'') always_limited (post_request odd_body)) = [] \<and>
   calls (handler parse_sample (Some ''k'') always_limited (post_request odd_body)) = [] \<and>
   uncaught (handler parse_sample (Some ''k'') always_limited (post_request odd_body)) =
     Some ''Cannot convert object to primitive value''"
  by (simp add: handler_def validate_and_build_def post_request_def odd_body_def)

text \<open>
  C9. A POST request with a key configured, whose body is an object with a truthy \<open>prompt\<close>
  that prints as \<open>p\<close> and with no \<open>hardwareData\<close> property: at least one call is made, and
  the user-content string of every call ends, after the table label, in the text
  \<open>undefined\<close>.
\<close>

theorem absent_hardwareData_prints_undefined:
  assumes "req_method req = ''POST''" and "GEMINI_API_KEY = Some key" and "key \<noteq> []"
    and "body req = Inr (Obj kvs)" and "map_of kvs ''hardwareData'' = None"
    and "truthy (getprop (Obj kvs) ''prompt'')"
    and "to_string (getprop (Obj kvs) ''prompt'') = Inr p"
  shows "calls (handler JSON_parse GEMINI_API_KEY fetch req) \<noteq> [] \<and>
         (\<forall>c \<in> set (calls (handler JSON_parse GEMINI_API_KEY fetch req)).
            user_content c = Str (userQuery_label @ p @ userQuery_table @ ''undefined''))"
proof -
  let ?call = "\<lparr>url = API_URL @ key, http_method = ''POST'',
         headers = [(''Content-Type'', ''application/json'')],
         payload = build_payload (userQuery_label @ p @ userQuery_table @ ''undefined'')
                     (systemPrompt_head @ p @ systemPrompt_tail)\<rparr>"
  from assms(5) have "to_string (getprop (Obj kvs) ''hardwareData'') = Inr ''undefined''"
    by simp
  from validate_ok [OF assms(1-4) assms(6,7) this]
  have "validate_and_build GEMINI_API_KEY req = Inr ?call" .
  from handler_calls [OF this, of JSON_parse fetch]
  obtain n where "calls (handler JSON_parse GEMINI_API_KEY fetch req) = replicate n ?call" "0 < n"
    by auto
  then show ?thesis
    by (simp add: user_content_built)
qed

theorem absent_hardwareData_prints_undefined_witness:
  "calls (handler parse_sample (Some ''k'') limited_then_ok (post_request bare_body)) \<noteq> [] \<and>
   user_content (hd (calls (handler parse_sample (Some ''k'') limited_then_ok (post_request bare_body)))) =
     Str (userQuery_label @ ''gaming pc'' @ userQuery_table @ ''undefined'')"
  using absent_hardwareData_prints_undefined [where req = "post_request bare_body"
      and GEMINI_API_KEY = "Some ''k''" and key = "''k''" and kvs = "[(''prompt'', Str ''gaming pc'')]"
      and p = "''gaming pc''" and JSON_parse = parse_sample and fetch = limited_then_ok]
  by (simp add: post_request_def bare_body_def)

text \<open>
  C10. The output-parsing stage, for every envelope, parser and state: it writes exactly
  one response, a 500 unless a text was parsed (then 200 with the parsed value), leaves
  the calls alone and throws nothing. When \<open>candidates[0]\<close> is missing (no \<open>candidates\<close> at
  all, an empty array, a \<open>null\<close> entry, a \<open>null\<close> envelope), the response is the 500 of the
  \<open>catch\<close> with the TypeError's text as \<open>errorDetails\<close>, and the only console line is that
  of the \<open>catch\<close>: the empty-content branch is not entered.
\<close>

theorem malformed_envelope_is_parse_failure:
  "(\<exists>r. replies (respond JSON_parse e st) = replies st @ [r] \<and>
        (reply_status r = 500 \<or>
         reply_status r = 200 \<and> (\<exists>t. JSON_parse t = Inr (reply_body r)))) \<and>
   uncaught (respond JSON_parse e st) = uncaught st \<and>
   calls (respond JSON_parse e st) = calls st \<and>
   (nullish (candidate0 e) \<longrightarrow>
      replies (respond JSON_parse e st) =
        replies st @
        [\<lparr>reply_status = 500,
          reply_body = Obj [(''message'', Str MSG_INVALID_JSON),
            (''errorDetails'',
             Str (if nullish e then type_error e ''candidates''
                  else type_error (candidate0 e) ''content''))]\<rparr>] \<and>
      logs (respond JSON_parse e st) =
        logs st @
        [Console_error [Str ''Error parsing or sending final response:'',
           Str (if nullish e then type_error e ''candidates''
                else type_error (candidate0 e) ''content'')]])"
proof -
  have "nullish (candidate0 e) \<Longrightarrow> parse_output JSON_parse e st =
      (Inl (if nullish e then type_error e ''candidates''
            else type_error (candidate0 e) ''content''), st)"
    by (simp add: parse_output_no_envelope parse_output_no_candidate)
  then show ?thesis
    using respond_effects [of JSON_parse e st]
    by (auto simp: respond_thrown INVALID_JSON_body_def)
qed

theorem malformed_envelope_is_parse_failure_witness:
  "replies (respond parse_sample (Obj []) init) =
     [\<lparr>reply_status = 500,
       reply_body = Obj [(''message'', Str MSG_INVALID_JSON),
         (''errorDetails'', Str (''Cannot read properties of undefined (reading '' @
            [CHR 0x27] @ ''content'' @ [CHR 0x27] @ '')''))]\<rparr>] \<and>
   logs (respond parse_sample (Obj []) init) =
     [Console_error [Str ''Error parsing or sending final response:'',
        Str (''Cannot read properties of undefined (reading '' @
            [CHR 0x27] @ ''content'' @ [CHR 0x27] @ '')'')]]"
  using malformed_envelope_is_parse_failure [of parse_sample "Obj []" init]
  by (simp add: candidate0_def type_error_def apostrophe_def)

end
